theory Spec2Isabelle
  imports Complex_Main
begin

text \<open>
  A model of the parts of the Sentinal SRE agent that decide an incident: the policy engine,
  the two metrics sources, the sandbox monitor, the rollback manager and the interactive
  approval endpoint. Each definition follows the TypeScript function of the same name; the
  properties proved about them come after all the definitions.
\<close>

section \<open>JavaScript strings\<close>

text \<open>
  Strings are lists of characters. \<open>toLowerCase\<close> is modelled on the ASCII letters
  (\<open>A\<close>..\<open>Z\<close> become \<open>a\<close>..\<open>z\<close>, every other character is kept); the characters
  outside ASCII that JavaScript lower-cases (the Kelvin sign to \<open>k\<close>, for one) are outside
  the model, which so covers texts and keywords written in ASCII. \<open>includes_str\<close> is the
  substring test of \<open>String.prototype.includes\<close>.
\<close>

definition toLowerChar :: "char \<Rightarrow> char" where
  "toLowerChar c =
     (case map_of (zip ''ABCDEFGHIJKLMNOPQRSTUVWXYZ'' ''abcdefghijklmnopqrstuvwxyz'') c of
        Some l \<Rightarrow> l
      | None \<Rightarrow> c)"

definition toLowerCase :: "string \<Rightarrow> string" where
  "toLowerCase s = map toLowerChar s"

fun startsWith :: "string \<Rightarrow> string \<Rightarrow> bool" where
  "startsWith s [] = True"
| "startsWith [] (p # ps) = False"
| "startsWith (c # cs) (p # ps) = (c = p \<and> startsWith cs ps)"

fun includes_str :: "string \<Rightarrow> string \<Rightarrow> bool" where
  "includes_str [] pat = (pat = [])"
| "includes_str (c # cs) pat = (startsWith (c # cs) pat \<or> includes_str cs pat)"

text \<open>Decimal rendering of a number inside a template literal.\<close>

definition digit_char :: "nat \<Rightarrow> char" where
  "digit_char d = ''0123456789'' ! d"

function show_nat :: "nat \<Rightarrow> string" where
  "show_nat n =
     (if n < 10 then [digit_char n] else show_nat (n div 10) @ [digit_char (n mod 10)])"
  by pat_completeness auto
termination
  by (relation "measure (\<lambda>n. n)") auto

declare show_nat.simps [simp del]

definition show_int :: "int \<Rightarrow> string" where
  "show_int i = (if i < 0 then CHR ''-'' # show_nat (nat (- i)) else show_nat (nat i))"

section \<open>Policy engine (src/policy/safety-check.step.ts)\<close>

datatype risk_level = Low | Medium | High

fun risk_str :: "risk_level \<Rightarrow> string" where
  "risk_str Low = ''low''"
| "risk_str Medium = ''medium''"
| "risk_str High = ''high''"

text \<open>Values of the \<open>metadata\<close> record (\<open>z.record(z.string(), z.unknown())\<close>).\<close>

datatype jsval = JStr string | JNum real | JBool bool | JNull

record rca_result =
  incidentId :: string
  summary :: string
  rootCause :: string
  proposedFix :: string
  riskLevel :: risk_level
  estimatedImpact :: string
  timestamp :: string
  metadata :: "(string \<rightharpoonup> jsval) option"

record policy_rules =
  autoApproveThreshold :: string
  requireApprovalFor :: "string list"
  rejectFor :: "string list"
  allowedActions :: "string list"
  blockedActions :: "string list"

definition defaultRules :: policy_rules where
  "defaultRules =
     \<lparr> autoApproveThreshold = ''low'',
       requireApprovalFor = [''medium'', ''high''],
       rejectFor = [],
       allowedActions = [''restart'', ''scale'', ''clear-cache'', ''update-config''],
       blockedActions = [''delete-data'', ''drop-database''] \<rparr>"

datatype policy_action = AutoApprove | RequireApproval | Reject

record decision =
  action :: policy_action
  reason :: string

text \<open>\<open>metadata?.alertType\<close>: undefined when there is no metadata or no such key.\<close>

definition metadata_alertType :: "rca_result \<Rightarrow> jsval option" where
  "metadata_alertType r = (case metadata r of None \<Rightarrow> None | Some m \<Rightarrow> m ''alertType'')"

text \<open>The loop over \<open>rules.blockedActions\<close>: the first keyword found in the fix.\<close>

fun first_blocked :: "string \<Rightarrow> string list \<Rightarrow> string option" where
  "first_blocked fix [] = None"
| "first_blocked fix (b # bs) =
     (if includes_str (toLowerCase fix) (toLowerCase b) then Some b else first_blocked fix bs)"

definition evaluatePolicy :: "rca_result \<Rightarrow> policy_rules \<Rightarrow> decision" where
  "evaluatePolicy rcaResult rules =
     (if metadata_alertType rcaResult = Some (JStr ''sandbox_disk_full'') then
        \<lparr> action = RequireApproval,
          reason = ''Sandbox cleanup always requires human approval for safety'' \<rparr>
      else case first_blocked (proposedFix rcaResult) (blockedActions rules) of
        Some blockedAction \<Rightarrow>
          \<lparr> action = Reject,
            reason = ''Proposed fix contains blocked action: '' @ blockedAction \<rparr>
      | None \<Rightarrow>
          if riskLevel rcaResult = Low \<and> autoApproveThreshold rules = ''low'' then
            \<lparr> action = AutoApprove, reason = ''Low-risk fix meets auto-approval criteria'' \<rparr>
          else if risk_str (riskLevel rcaResult) \<in> set (requireApprovalFor rules) then
            \<lparr> action = RequireApproval,
              reason = ''Risk level '' @ [CHR 0x27] @ risk_str (riskLevel rcaResult) @ [CHR 0x27]
                       @ '' requires human approval per policy'' \<rparr>
          else
            \<lparr> action = RequireApproval, reason = ''Default policy: require human approval'' \<rparr>)"

subsection \<open>The handler and the state it writes\<close>

text \<open>
  The state store is addressed by group and key. Each group is a map from keys to the records
  its writers store there; the emitted events are collected in order. Reads and writes of
  the store and \<open>emit\<close> do not fail, so the handler's \<open>catch\<close> (log and rethrow) is never
  entered; logging has no effect on the state. \<open>clock n\<close> is the text of the
  \<open>n\<close>-th \<open>new Date().toISOString()\<close> of one run.
\<close>

record policy_decision =
  pd_incidentId :: string
  pd_decision :: policy_action
  pd_reason :: string
  pd_riskLevel :: risk_level
  pd_evaluatedAt :: string
  pd_rcaSummary :: string
  pd_proposedFix :: string

record policy_rejection =
  rj_incidentId :: string
  rj_reason :: string
  rj_rejectedAt :: string

datatype approval_status = Pending | Approved | Rejected

record exec_result =
  ex_success :: bool
  ex_message :: string
  ex_logs :: "string list"

record pending_approval =
  pa_incidentId :: string
  pa_status :: approval_status
  pa_requestedAt :: string
  pa_riskLevel :: risk_level
  pa_rcaSummary :: string
  pa_proposedFix :: string
  pa_approver :: "string option"
  pa_approvedAt :: "string option"
  pa_executionResult :: "exec_result option"
  pa_actionType :: "string option"

text \<open>The payloads of the events, one constructor for each shape the handlers emit.\<close>

datatype event_data =
    AutomaticApproval string string string rca_result
      \<comment> \<open>incidentId, approvedBy, approvedAt, rcaResult (approvalType automatic)\<close>
  | ApprovalRequest string risk_level string rca_result string
      \<comment> \<open>incidentId, riskLevel, reason, rcaResult, requestedAt\<close>
  | InteractiveApproval string string string rca_result "exec_result option" string
      \<comment> \<open>incidentId, approvedBy, approvedAt, rcaResult, executionResult, actionType\<close>
  | Rejection string string string string
      \<comment> \<open>incidentId, rejectedBy, rejectedAt, reason\<close>

record event =
  topic :: string
  data :: event_data

datatype alert_type =
  HighMemory | ContainerDown | DiskFull | NetworkLatency | CpuSpike | SandboxDiskFull

record rollback_snapshot =
  sn_incidentId :: string
  sn_alertType :: alert_type
  sn_timestamp :: string
  sn_affectedResource :: string
  sn_beforeState :: "(string \<times> jsval) list"
  sn_fixApplied :: string
  sn_fixDetails :: "(string \<times> jsval) list"

record rollback_result =
  rr_success :: bool
  rr_incidentId :: string
  rr_rollbackTimestamp :: string
  rr_duration :: int
  rr_errors :: "string list option"
  rr_verificationPassed :: bool

record rollback_entry =
  re_result :: rollback_result
  re_reason :: string
  re_snapshot :: rollback_snapshot

record world =
  policy_rules_group :: "string \<rightharpoonup> policy_rules"
  policy_decisions :: "string \<rightharpoonup> policy_decision"
  policy_rejections :: "string \<rightharpoonup> policy_rejection"
  approval_pending :: "string \<rightharpoonup> pending_approval"
  rca_results :: "string \<rightharpoonup> rca_result"
  rollback_snapshots :: "string \<rightharpoonup> rollback_snapshot"
  rollback_history :: "string \<rightharpoonup> rollback_entry"
  emitted :: "event list"
  action_results_sent :: "(string \<times> string \<times> exec_result) list"

definition emit :: "event \<Rightarrow> world \<Rightarrow> world" where
  "emit e w = w\<lparr>emitted := emitted w @ [e]\<rparr>"

text \<open>\<open>state.get\<close>: the stored value, or null; the left summand stands for a failed read.\<close>

definition state_get :: "(string \<rightharpoonup> 'a) \<Rightarrow> string \<Rightarrow> unit + 'a option" where
  "state_get g k = Inr (g k)"

definition loadPolicyRules :: "world \<Rightarrow> world \<times> policy_rules" where
  "loadPolicyRules w =
     (case state_get (policy_rules_group w) ''default'' of
        Inr (Some savedRules) \<Rightarrow> (w, savedRules)
      | Inr None \<Rightarrow> (w, defaultRules)
      | Inl _ \<Rightarrow>
          (w\<lparr>policy_rules_group := (policy_rules_group w)(''default'' \<mapsto> defaultRules)\<rparr>,
           defaultRules))"

definition PolicyEngineSafetyCheck_handler :: "(nat \<Rightarrow> string) \<Rightarrow> rca_result \<Rightarrow> world \<Rightarrow> world" where
  "PolicyEngineSafetyCheck_handler clock rcaResult w0 =
     (let (w1, policyRules) = loadPolicyRules w0;
          d = evaluatePolicy rcaResult policyRules;
          w2 = w1\<lparr>policy_decisions := (policy_decisions w1)(incidentId rcaResult \<mapsto>
                 \<lparr> pd_incidentId = incidentId rcaResult,
                   pd_decision = action d,
                   pd_reason = reason d,
                   pd_riskLevel = riskLevel rcaResult,
                   pd_evaluatedAt = clock 0,
                   pd_rcaSummary = summary rcaResult,
                   pd_proposedFix = proposedFix rcaResult \<rparr>)\<rparr>
      in if action d = AutoApprove then
           emit \<lparr> topic = ''fix.approved'',
                  data = AutomaticApproval (incidentId rcaResult) ''policy-engine'' (clock 1)
                           rcaResult \<rparr> w2
         else if action d = RequireApproval then
           (let w3 = emit \<lparr> topic = ''approval.required'',
                            data = ApprovalRequest (incidentId rcaResult) (riskLevel rcaResult)
                                     (reason d) rcaResult (clock 1) \<rparr> w2
            in w3\<lparr>approval_pending := (approval_pending w3)(incidentId rcaResult \<mapsto>
                 \<lparr> pa_incidentId = incidentId rcaResult,
                   pa_status = Pending,
                   pa_requestedAt = clock 2,
                   pa_riskLevel = riskLevel rcaResult,
                   pa_rcaSummary = summary rcaResult,
                   pa_proposedFix = proposedFix rcaResult,
                   pa_approver = None,
                   pa_approvedAt = None,
                   pa_executionResult = None,
                   pa_actionType = None \<rparr>)\<rparr>)
         else
           w2\<lparr>policy_rejections := (policy_rejections w2)(incidentId rcaResult \<mapsto>
                 \<lparr> rj_incidentId = incidentId rcaResult,
                   rj_reason = reason d,
                   rj_rejectedAt = clock 1 \<rparr>)\<rparr>)"

section \<open>Metrics sources (services/infrastructure-simulator.ts, services/prometheus-client.ts)\<close>

text \<open>
  JavaScript numbers are modelled as reals (no NaN, no infinities). The formatting functions of
  the runtime (\<open>Number.prototype.toFixed\<close>, \<open>Date.prototype.toISOString\<close>), the clock and the
  random suffix of an alert id are parameters of the model.
\<close>

datatype severity = SevLow | SevMedium | SevHigh | SevCritical

datatype container_status = Running | Stopped | Crashed

datatype health_status = Healthy | Unhealthy

record resource_usage =
  used :: real
  total :: real
  percentage :: real

record cpu_metrics =
  usage :: real

record container_info =
  ct_name :: string
  ct_status :: container_status
  ct_restartCount :: nat

record network_metrics =
  latency :: real
  errorRate :: real

record infrastructure_metrics =
  memory :: resource_usage
  cpu :: cpu_metrics
  disk :: resource_usage
  containers :: "container_info list"
  network :: network_metrics

record health_check_result =
  hc_resource :: string
  hc_status :: health_status
  hc_metric :: string
  hc_value :: real
  hc_threshold :: real
  hc_timestamp :: string

record alert_metadata =
  md_healthCheck :: health_check_result
  md_alertType :: alert_type
  md_diskUsagePercent :: "real option"

record alert_data =
  al_id :: string
  al_alertType :: alert_type
  al_severity :: severity
  al_timestamp :: string
  al_metric :: string
  al_currentValue :: real
  al_threshold :: real
  al_affectedResource :: string
  al_logs :: "string list"
  al_metadata :: alert_metadata

record js_env =
  toFixed :: "real \<Rightarrow> nat \<Rightarrow> string"
  toISOString :: "int \<Rightarrow> string"
  date_now :: int
  random_id :: string

record simulator =
  scenarioActive :: "alert_type option"
  scenarioStartTime :: int

definition baseMetrics :: infrastructure_metrics where
  "baseMetrics =
     \<lparr> memory = \<lparr> used = 4096, total = 16384, percentage = 25 \<rparr>,
       cpu = \<lparr> usage = 15 \<rparr>,
       disk = \<lparr> used = 50, total = 500, percentage = 10 \<rparr>,
       containers =
         [\<lparr> ct_name = ''web-server'', ct_status = Running, ct_restartCount = 0 \<rparr>,
          \<lparr> ct_name = ''api-server'', ct_status = Running, ct_restartCount = 0 \<rparr>,
          \<lparr> ct_name = ''worker-1'', ct_status = Running, ct_restartCount = 0 \<rparr>,
          \<lparr> ct_name = ''redis-cache'', ct_status = Running, ct_restartCount = 0 \<rparr>],
       network = \<lparr> latency = 45, errorRate = 1 / 10 \<rparr> \<rparr>"

fun applyScenario :: "infrastructure_metrics \<Rightarrow> alert_type \<Rightarrow> infrastructure_metrics" where
  "applyScenario metrics HighMemory =
     metrics\<lparr>memory := \<lparr> used = 13107, total = 16384, percentage = 80 \<rparr>\<rparr>"
| "applyScenario metrics ContainerDown =
     metrics\<lparr>containers :=
       map (\<lambda>c. if ct_name c = ''api-server''
                then c\<lparr>ct_status := Crashed, ct_restartCount := 3\<rparr> else c)
           (containers metrics)\<rparr>"
| "applyScenario metrics DiskFull =
     metrics\<lparr>disk := \<lparr> used = 480, total = 500, percentage = 96 \<rparr>\<rparr>"
| "applyScenario metrics NetworkLatency =
     metrics\<lparr>network := \<lparr> latency = 350, errorRate = 52 / 10 \<rparr>\<rparr>"
| "applyScenario metrics CpuSpike =
     metrics\<lparr>cpu := \<lparr> usage = 95 \<rparr>\<rparr>"
| "applyScenario metrics SandboxDiskFull =
     metrics\<lparr>disk := \<lparr> used = 110, total = 100, percentage = 110 \<rparr>\<rparr>"

definition collectMetrics :: "simulator \<Rightarrow> infrastructure_metrics" where
  "collectMetrics sim =
     (case scenarioActive sim of
        Some scenario \<Rightarrow> applyScenario baseMetrics scenario
      | None \<Rightarrow> baseMetrics)"

definition triggerScenario :: "alert_type \<Rightarrow> int \<Rightarrow> simulator \<Rightarrow> simulator" where
  "triggerScenario scenario now sim =
     sim\<lparr>scenarioActive := Some scenario, scenarioStartTime := now\<rparr>"

definition clearScenario :: "simulator \<Rightarrow> simulator" where
  "clearScenario sim = sim\<lparr>scenarioActive := None, scenarioStartTime := 0\<rparr>"

definition containerCheck :: "string \<Rightarrow> container_info \<Rightarrow> health_check_result" where
  "containerCheck stamp container =
     \<lparr> hc_resource = ''container-'' @ ct_name container,
       hc_status = (if ct_status container = Running then Healthy else Unhealthy),
       hc_metric = ''container_status'',
       hc_value = (if ct_status container = Running then 1 else 0),
       hc_threshold = 1,
       hc_timestamp = stamp \<rparr>"

definition performHealthChecks :: "string \<Rightarrow> infrastructure_metrics \<Rightarrow> health_check_result list" where
  "performHealthChecks stamp metrics =
     [\<lparr> hc_resource = ''system-memory'',
        hc_status = (if percentage (memory metrics) \<ge> 60 then Unhealthy else Healthy),
        hc_metric = ''memory_usage_percent'',
        hc_value = percentage (memory metrics),
        hc_threshold = 80,
        hc_timestamp = stamp \<rparr>,
      \<lparr> hc_resource = ''system-cpu'',
        hc_status = (if usage (cpu metrics) \<ge> 80 then Unhealthy else Healthy),
        hc_metric = ''cpu_usage_percent'',
        hc_value = usage (cpu metrics),
        hc_threshold = 80,
        hc_timestamp = stamp \<rparr>,
      \<lparr> hc_resource = ''system-disk'',
        hc_status = (if percentage (disk metrics) \<ge> 95 then Unhealthy else Healthy),
        hc_metric = ''disk_usage_percent'',
        hc_value = percentage (disk metrics),
        hc_threshold = 95,
        hc_timestamp = stamp \<rparr>]
     @ map (containerCheck stamp) (containers metrics)
     @ [\<lparr> hc_resource = ''network'',
          hc_status = (if latency (network metrics) > 200 then Unhealthy else Healthy),
          hc_metric = ''network_latency_ms'',
          hc_value = latency (network metrics),
          hc_threshold = 200,
          hc_timestamp = stamp \<rparr>]"

text \<open>
  The alert type, severity and log lines chosen by \<open>createAlert\<close> of the simulator; \<open>None\<close>
  is its \<open>return null\<close> for an unknown metric. The arrow of the route line is kept as the
  bytes the source file holds.
\<close>

definition classifyCheck ::
  "js_env \<Rightarrow> health_check_result \<Rightarrow> (alert_type \<times> severity \<times> string list) option" where
  "classifyCheck env check =
     (if hc_metric check = ''memory_usage_percent'' then
        Some (HighMemory, (if hc_value check > 92 then SevCritical else SevHigh),
          [''Memory usage at '' @ toFixed env (hc_value check) 1 @ ''%'',
           ''Top process: node (3.2GB)'',
           ''Available memory: '' @ toFixed env ((100 - hc_value check) * (16384 / 100)) 0 @ ''MB''])
      else if hc_metric check = ''cpu_usage_percent'' then
        Some (CpuSpike, SevHigh,
          [''CPU usage at '' @ toFixed env (hc_value check) 1 @ ''%'',
           ''High load on core 0: 98%'',
           ''Process causing spike: worker-process''])
      else if hc_metric check = ''disk_usage_percent'' then
        (if hc_resource check = ''sandbox-disk'' then
           Some (SandboxDiskFull, SevHigh,
             [''Sandbox disk usage at '' @ toFixed env (hc_value check) 1 @ ''MB'',
              ''Threshold: 100MB'',
              ''Files can be safely cleaned: logs/, temp/, cache/''])
         else
           Some (DiskFull, SevCritical,
             [''Disk usage at '' @ toFixed env (hc_value check) 1 @ ''%'',
              ''/var/log directory: 25GB'',
              ''Docker images: 15GB'']))
      else if hc_metric check = ''container_status'' then
        Some (ContainerDown, SevCritical,
          [''Container '' @ hc_resource check @ '' is not running'',
           ''Exit code: 137 (OOMKilled)'',
           ''Last restart: '' @ toISOString env (date_now env - 60000)])
      else if hc_metric check = ''network_latency_ms'' then
        Some (NetworkLatency, SevMedium,
          [''Network latency at '' @ toFixed env (hc_value check) 0 @ ''ms'',
           ''Packet loss: 2.3%'',
           ''Route: internal-lb ''
             @ [CHR 0xC3, CHR 0xA2, CHR 0xE2, CHR 0x80, CHR 0xA0, CHR 0xE2, CHR 0x80, CHR 0x99]
             @ '' api-server''])
      else None)"

definition createAlert :: "js_env \<Rightarrow> health_check_result \<Rightarrow> string \<Rightarrow> alert_data option" where
  "createAlert env check stamp =
     (case classifyCheck env check of
        None \<Rightarrow> None
      | Some (alertType, severity, logs) \<Rightarrow>
          Some \<lparr> al_id = ''alert-'' @ show_int (date_now env) @ ''-'' @ random_id env,
                 al_alertType = alertType,
                 al_severity = severity,
                 al_timestamp = stamp,
                 al_metric = hc_metric check,
                 al_currentValue = hc_value check,
                 al_threshold = hc_threshold check,
                 al_affectedResource = hc_resource check,
                 al_logs = logs,
                 al_metadata =
                   \<lparr> md_healthCheck = check,
                     md_alertType = alertType,
                     md_diskUsagePercent =
                       (if hc_metric check = ''disk_usage_percent''
                        then Some (hc_value check) else None) \<rparr> \<rparr>)"

text \<open>
  The loop of \<open>detectAlerts\<close>; \<open>env i\<close> is the runtime (clock, random suffix) seen while the
  check at position \<open>i\<close> is turned into an alert.
\<close>

fun detectAlerts_from ::
  "(nat \<Rightarrow> js_env) \<Rightarrow> string \<Rightarrow> nat \<Rightarrow> health_check_result list \<Rightarrow> alert_data list" where
  "detectAlerts_from env stamp i [] = []"
| "detectAlerts_from env stamp i (check # rest) =
     (if hc_status check = Unhealthy then
        (case createAlert (env i) check stamp of
           Some alert \<Rightarrow> alert # detectAlerts_from env stamp (Suc i) rest
         | None \<Rightarrow> detectAlerts_from env stamp (Suc i) rest)
      else detectAlerts_from env stamp (Suc i) rest)"

definition detectAlerts ::
  "(nat \<Rightarrow> js_env) \<Rightarrow> string \<Rightarrow> health_check_result list \<Rightarrow> alert_data list" where
  "detectAlerts env stamp healthChecks = detectAlerts_from env stamp 0 healthChecks"

text \<open>\<open>performHealthChecks\<close> of the Prometheus client.\<close>

definition prom_performHealthChecks ::
  "string \<Rightarrow> infrastructure_metrics \<Rightarrow> health_check_result list" where
  "prom_performHealthChecks stamp metrics =
     [\<lparr> hc_resource = ''system-memory'',
        hc_status = (if percentage (memory metrics) \<ge> 60 then Unhealthy else Healthy),
        hc_metric = ''memory_usage_percent'',
        hc_value = percentage (memory metrics),
        hc_threshold = 80,
        hc_timestamp = stamp \<rparr>,
      \<lparr> hc_resource = ''system-cpu'',
        hc_status = (if usage (cpu metrics) \<ge> 80 then Unhealthy else Healthy),
        hc_metric = ''cpu_usage_percent'',
        hc_value = usage (cpu metrics),
        hc_threshold = 80,
        hc_timestamp = stamp \<rparr>,
      \<lparr> hc_resource = ''system-disk'',
        hc_status = (if percentage (disk metrics) \<ge> 95 then Unhealthy else Healthy),
        hc_metric = ''disk_usage_percent'',
        hc_value = percentage (disk metrics),
        hc_threshold = 95,
        hc_timestamp = stamp \<rparr>]
     @ map (containerCheck stamp) (containers metrics)
     @ [\<lparr> hc_resource = ''network'',
          hc_status = (if latency (network metrics) > 200 then Unhealthy else Healthy),
          hc_metric = ''network_latency_ms'',
          hc_value = latency (network metrics),
          hc_threshold = 200,
          hc_timestamp = stamp \<rparr>]"

section \<open>Sandbox monitor (services/sandbox-monitor.ts)\<close>

text \<open>
  The sandbox directory is a tree. A file has a size in bytes and a modification time in
  milliseconds; a directory has a modification time, a flag telling whether it can be listed,
  and its entries in the order \<open>readdir\<close> returns them; a symbolic link has a target, a path
  from the sandbox root (links that leave the sandbox are not modelled). Paths are relative to
  the sandbox root. The modification time of a directory is not advanced when an entry is
  removed (the code never reads it afterwards).
\<close>

datatype node = File nat int | Dir int bool "(string \<times> node) list" | Link "string list"

datatype fs_error = ENOENT | ENOTDIR | EISDIR | EACCES

text \<open>The entry stored at a path; no symbolic link is followed.\<close>

fun lookup :: "node \<Rightarrow> string list \<Rightarrow> node option" where
  "lookup n [] = Some n"
| "lookup (Dir mt r es) (x # p) =
     (case map_of es x of None \<Rightarrow> None | Some child \<Rightarrow> lookup child p)"
| "lookup (File sz mt) (x # p) = None"
| "lookup (Link t) (x # p) = None"

text \<open>
  Path resolution as the system calls do it: \<open>resolve b fs cur rest\<close> walks \<open>rest\<close> from the
  directory stored at \<open>cur\<close> and follows every symbolic link it meets, at most \<open>b\<close> of them.
  It returns the path where the entry is stored, with the number of links it may still follow,
  or nothing when a name is missing or the links are too many (more than 40, the limit of
  Linux).
\<close>

definition MAXSYMLINKS :: nat where
  "MAXSYMLINKS = 40"

function resolve :: "nat \<Rightarrow> node \<Rightarrow> string list \<Rightarrow> string list \<Rightarrow> (nat \<times> string list) option" where
  "resolve b fs cur [] = Some (b, cur)"
| "resolve b fs cur (x # rest) =
     (case lookup fs (cur @ [x]) of
        None \<Rightarrow> None
      | Some (Link t) \<Rightarrow> if b = 0 then None else resolve (b - 1) fs [] (t @ rest)
      | Some (File sz mt) \<Rightarrow> resolve b fs (cur @ [x]) rest
      | Some (Dir mt r es) \<Rightarrow> resolve b fs (cur @ [x]) rest)"
  by pat_completeness auto
termination
  by (relation "inv_image (less_than <*lex*> less_than) (\<lambda>(b, fs, cur, rest). (b, length rest))")
    auto

text \<open>\<open>fs.stat\<close> follows links: whether the path leads to a directory, its size, its modification time.\<close>

record stats =
  st_isDirectory :: bool
  st_size :: nat
  st_mtime :: int

definition stat :: "node \<Rightarrow> string list \<Rightarrow> fs_error + stats" where
  "stat fs p =
     (case resolve MAXSYMLINKS fs [] p of
        None \<Rightarrow> Inl ENOENT
      | Some (b, dest) \<Rightarrow>
          (case lookup fs dest of
             Some (File sz mt) \<Rightarrow> Inr \<lparr> st_isDirectory = False, st_size = sz, st_mtime = mt \<rparr>
           | Some (Dir mt r es) \<Rightarrow> Inr \<lparr> st_isDirectory = True, st_size = 4096, st_mtime = mt \<rparr>
           | _ \<Rightarrow> Inl ENOENT))"

definition readdir :: "node \<Rightarrow> string list \<Rightarrow> fs_error + string list" where
  "readdir fs p =
     (case resolve MAXSYMLINKS fs [] p of
        None \<Rightarrow> Inl ENOENT
      | Some (b, dest) \<Rightarrow>
          (case lookup fs dest of
             Some (Dir mt r es) \<Rightarrow> if r then Inr (map fst es) else Inl EACCES
           | Some (File sz mt) \<Rightarrow> Inl ENOTDIR
           | _ \<Rightarrow> Inl ENOENT))"

fun remove_path :: "node \<Rightarrow> string list \<Rightarrow> node" where
  "remove_path (Dir mt r es) [x] = Dir mt r (filter (\<lambda>e. fst e \<noteq> x) es)"
| "remove_path (Dir mt r es) (x # y # p) =
     Dir mt r (map (\<lambda>e. if fst e = x then (fst e, remove_path (snd e) (y # p)) else e) es)"
| "remove_path n p = n"

text \<open>
  \<open>fs.unlink\<close> follows the links on the way to the directory, not the last name: it removes
  the file or the link stored under that name, and fails on a directory, on a missing path,
  and where the system refuses the removal. \<open>locked\<close> holds the paths of the entries the
  process may not remove (a directory without write permission, a sticky directory, an
  immutable file, a read-only mount).
\<close>

definition unlink :: "(string list \<Rightarrow> bool) \<Rightarrow> node \<Rightarrow> string list \<Rightarrow> fs_error + node" where
  "unlink locked fs p =
     (if p = [] then Inl EISDIR
      else case resolve MAXSYMLINKS fs [] (butlast p) of
        None \<Rightarrow> Inl ENOENT
      | Some (b, dir) \<Rightarrow>
          (case lookup fs (dir @ [last p]) of
             None \<Rightarrow> Inl ENOENT
           | Some (Dir mt r es) \<Rightarrow> Inl EISDIR
           | Some entry \<Rightarrow>
               if locked (dir @ [last p]) then Inl EACCES
               else Inr (remove_path fs (dir @ [last p]))))"

text \<open>
  \<open>getDirectorySize\<close>: the size of a file, the sum over the entries of a directory, and 0
  where \<open>stat\<close> or \<open>readdir\<close> throws. \<open>size_within fs b n\<close> is the size found at an entry
  \<open>n\<close> that was reached with \<open>b\<close> links left to follow.
\<close>

function size_within :: "node \<Rightarrow> nat \<Rightarrow> node \<Rightarrow> nat" where
  "size_within fs b (File sz mt) = sz"
| "size_within fs b (Dir mt r es) =
     (if r then sum_list (map (\<lambda>e. size_within fs b (snd e)) es) else 0)"
| "size_within fs b (Link t) =
     (if b = 0 then 0
      else case resolve (b - 1) fs [] t of
             None \<Rightarrow> 0
           | Some (b', dest) \<Rightarrow>
               (case lookup fs dest of
                  None \<Rightarrow> 0
                | Some n \<Rightarrow> size_within fs b' n))"
  by pat_completeness auto
termination
proof -
  have budget: "resolve b fs cur rest = Some (b', dest) \<Longrightarrow> b' \<le> b"
    for b fs cur rest b' dest
  proof (induction b fs cur rest rule: resolve.induct)
    case (1 b fs cur)
    then show ?case by simp
  next
    case (2 b fs cur x rest)
    then show ?case
      by (auto split: option.splits node.splits if_splits)
  qed
  have child: "e \<in> set es \<Longrightarrow> size (snd e) < Suc (size_list (size_prod (\<lambda>x. 0) size) es)"
    for e :: "string \<times> node" and es
    by (induction es) auto
  show ?thesis
    apply (relation "inv_image (less_than <*lex*> less_than) (\<lambda>(fs, b, n). (b, size n))")
    subgoal by auto
    subgoal for fs b mt r es e using child [of e es] by simp
    subgoal for fs b t x2 b' dest n using budget [of "b - 1" fs "[]" t b' dest] by simp
    done
qed

definition getDirectorySize :: "node \<Rightarrow> nat" where
  "getDirectorySize fs = size_within fs MAXSYMLINKS fs"


definition countFiles :: "node \<Rightarrow> string list \<Rightarrow> nat" where
  "countFiles fs p = (case readdir fs p of Inr names \<Rightarrow> length names | Inl e \<Rightarrow> 0)"

definition THRESHOLD_MB :: nat where
  "THRESHOLD_MB = 100"

text \<open>\<open>Math.round\<close>: the nearest integer, halves rounded up.\<close>

definition Math_round :: "real \<Rightarrow> int" where
  "Math_round x = \<lfloor>x + 1 / 2\<rfloor>"

record sandbox_files =
  f_logs :: nat
  f_temp :: nat
  f_cache :: nat
  f_data :: nat

record sandbox_metrics =
  totalSizeMB :: int
  totalSizeBytes :: nat
  sb_percentage :: int
  sb_files :: sandbox_files

definition sandbox_collectMetrics :: "node \<Rightarrow> sandbox_metrics" where
  "sandbox_collectMetrics fs =
     (let bytes = getDirectorySize fs;
          mb = Math_round (real bytes / (1024 * 1024))
      in \<lparr> totalSizeMB = mb,
           totalSizeBytes = bytes,
           sb_percentage = Math_round ((real_of_int mb / real THRESHOLD_MB) * 100),
           sb_files = \<lparr> f_logs = countFiles fs [''logs''],
                        f_temp = countFiles fs [''temp''],
                        f_cache = countFiles fs [''cache''],
                        f_data = countFiles fs [''data''] \<rparr> \<rparr>)"

definition isOverThreshold :: "node \<Rightarrow> bool" where
  "isOverThreshold fs = (totalSizeMB (sandbox_collectMetrics fs) \<ge> int THRESHOLD_MB)"

text \<open>
  The three phases of \<open>executeCleanup\<close>. Each returns the file system it leaves and either
  the error that ended the phase or the number of files it removed. \<open>clk i\<close> is the value of
  \<open>Date.now()\<close> when the entry at position \<open>i\<close> of the temp directory is examined.
\<close>

fun cleanTemp_loop ::
  "(string list \<Rightarrow> bool) \<Rightarrow> (nat \<Rightarrow> int) \<Rightarrow> nat \<Rightarrow> node \<Rightarrow> string list \<Rightarrow> nat
     \<Rightarrow> node \<times> (fs_error + nat)" where
  "cleanTemp_loop locked clk i fs [] tempDeleted = (fs, Inr tempDeleted)"
| "cleanTemp_loop locked clk i fs (file # rest) tempDeleted =
     (case stat fs [''temp'', file] of
        Inl e \<Rightarrow> (fs, Inl e)
      | Inr st \<Rightarrow>
          if real_of_int (clk i - st_mtime st) / (1000 * 60 * 60) > 1 / 100 then
            (case unlink locked fs [''temp'', file] of
               Inl e \<Rightarrow> (fs, Inl e)
             | Inr fs' \<Rightarrow> cleanTemp_loop locked clk (Suc i) fs' rest (Suc tempDeleted))
          else cleanTemp_loop locked clk (Suc i) fs rest tempDeleted)"

definition cleanTemp ::
  "(string list \<Rightarrow> bool) \<Rightarrow> (nat \<Rightarrow> int) \<Rightarrow> node \<Rightarrow> node \<times> (fs_error + nat)" where
  "cleanTemp locked clk fs =
     (case readdir fs [''temp''] of
        Inl e \<Rightarrow> (fs, Inl e)
      | Inr tempFiles \<Rightarrow> cleanTemp_loop locked clk 0 fs tempFiles 0)"

text \<open>The \<open>Promise.all\<close> over \<open>fs.stat\<close>: the name and modification time of every entry.\<close>

fun stat_all :: "node \<Rightarrow> string list \<Rightarrow> string list \<Rightarrow> fs_error + (string \<times> int) list" where
  "stat_all fs dir [] = Inr []"
| "stat_all fs dir (file # rest) =
     (case stat fs (dir @ [file]) of
        Inl e \<Rightarrow> Inl e
      | Inr st \<Rightarrow>
          (case stat_all fs dir rest of
             Inl e \<Rightarrow> Inl e
           | Inr sts \<Rightarrow> Inr ((file, st_mtime st) # sts)))"

fun unlink_each ::
  "(string list \<Rightarrow> bool) \<Rightarrow> node \<Rightarrow> string list \<Rightarrow> string list \<Rightarrow> node \<times> (fs_error + unit)" where
  "unlink_each locked fs dir [] = (fs, Inr ())"
| "unlink_each locked fs dir (file # rest) =
     (case unlink locked fs (dir @ [file]) of
        Inl e \<Rightarrow> (fs, Inl e)
      | Inr fs' \<Rightarrow> unlink_each locked fs' dir rest)"

definition cleanLogs :: "(string list \<Rightarrow> bool) \<Rightarrow> node \<Rightarrow> node \<times> (fs_error + nat)" where
  "cleanLogs locked fs =
     (case readdir fs [''logs''] of
        Inl e \<Rightarrow> (fs, Inl e)
      | Inr logFiles \<Rightarrow>
          (case stat_all fs [''logs''] logFiles of
             Inl e \<Rightarrow> (fs, Inl e)
           | Inr logStats \<Rightarrow>
               (let sorted = sort_key snd logStats;
                    toDelete = take (length sorted - 5) sorted
                in case unlink_each locked fs [''logs''] (map fst toDelete) of
                     (fs', Inl e) \<Rightarrow> (fs', Inl e)
                   | (fs', Inr u) \<Rightarrow> (fs', Inr (length toDelete)))))"

definition cleanCache :: "(string list \<Rightarrow> bool) \<Rightarrow> node \<Rightarrow> node \<times> (fs_error + nat)" where
  "cleanCache locked fs =
     (case readdir fs [''cache''] of
        Inl e \<Rightarrow> (fs, Inl e)
      | Inr cacheFiles \<Rightarrow>
          (case unlink_each locked fs [''cache''] cacheFiles of
             (fs', Inl e) \<Rightarrow> (fs', Inl e)
           | (fs', Inr u) \<Rightarrow> (fs', Inr (length cacheFiles))))"

text \<open>The line a phase adds to \<open>details\<close>: nothing when it removed no file.\<close>

definition phase_details :: "string \<Rightarrow> string \<Rightarrow> string \<Rightarrow> fs_error + nat \<Rightarrow> string list" where
  "phase_details before after skipped r =
     (case r of
        Inl e \<Rightarrow> [skipped]
      | Inr n \<Rightarrow> if n > 0 then [before @ show_nat n @ after] else [])"

record cleanup_result =
  cl_success :: bool
  cl_message :: string
  cl_freedMB :: int
  cl_details :: "string list"

text \<open>
  \<open>executeCleanup\<close>. Every call that can throw sits inside the \<open>try\<close> of its phase, so the
  outer \<open>catch\<close> (the result with \<open>success: false\<close>) is never entered.
\<close>

definition executeCleanup ::
  "(string list \<Rightarrow> bool) \<Rightarrow> (nat \<Rightarrow> int) \<Rightarrow> node \<Rightarrow> node \<times> cleanup_result" where
  "executeCleanup locked clk fs =
     (let beforeMetrics = sandbox_collectMetrics fs;
          (fs1, r1) = cleanTemp locked clk fs;
          (fs2, r2) = cleanLogs locked fs1;
          (fs3, r3) = cleanCache locked fs2;
          details =
            phase_details ''Deleted '' '' temp files''
              ''Temp directory cleanup skipped (not found)'' r1
            @ phase_details ''Deleted '' '' old log files'' ''Logs cleanup skipped (not found)'' r2
            @ phase_details ''Cleared '' '' cache files'' ''Cache cleanup skipped (not found)'' r3;
          afterMetrics = sandbox_collectMetrics fs3;
          freedMB = totalSizeMB beforeMetrics - totalSizeMB afterMetrics
      in (fs3,
          \<lparr> cl_success = True,
            cl_message = ''Successfully freed '' @ show_int freedMB
                         @ ''MB of disk space in sandbox'',
            cl_freedMB = freedMB,
            cl_details = details \<rparr>))"

section \<open>Errors (errors/sentinal-errors.ts) and their translation by the middlewares\<close>

text \<open>
  The exceptions the modelled code can raise. \<open>RollbackError incidentId message original\<close>
  is the class of that name (a \<open>SentinalError\<close>, not recoverable), with the message its
  constructor builds and the error it wraps.
\<close>

datatype js_error =
    Error string
  | TypeError string
  | ZodError string
  | RollbackError string string js_error

fun error_message :: "js_error \<Rightarrow> string" where
  "error_message (Error msg) = msg"
| "error_message (TypeError msg) = msg"
| "error_message (ZodError msg) = msg"
| "error_message (RollbackError incident msg original) = msg"

text \<open>The \<open>name\<close> of an error: the name of its class.\<close>

fun error_name :: "js_error \<Rightarrow> string" where
  "error_name (Error msg) = ''Error''"
| "error_name (TypeError msg) = ''TypeError''"
| "error_name (ZodError msg) = ''ZodError''"
| "error_name (RollbackError incident msg original) = ''RollbackError''"

definition new_RollbackError :: "string \<Rightarrow> string \<Rightarrow> js_error \<Rightarrow> js_error" where
  "new_RollbackError incident why original =
     RollbackError incident (''Rollback failed for incident '' @ incident @ '': '' @ why) original"

text \<open>
  The HTTP status the two error-translating middlewares give to an exception:
  \<open>coreMiddleware\<close> (middlewares/core.middleware.ts) answers 400 to a validation error and
  500 to everything else (no error class of the taxonomy has a \<open>status\<close> property);
  \<open>errorHandler\<close> (error-handler.middleware.ts) looks for words in the message.
\<close>

fun coreMiddleware_status :: "js_error \<Rightarrow> nat" where
  "coreMiddleware_status (ZodError msg) = 400"
| "coreMiddleware_status (RollbackError incident msg original) = 500"
| "coreMiddleware_status e = 500"

definition errorHandler_status :: "js_error \<Rightarrow> nat" where
  "errorHandler_status e =
     (case e of
        ZodError msg \<Rightarrow> 400
      | _ \<Rightarrow>
          if includes_str (error_message e) ''not found'' then 404
          else if includes_str (error_message e) ''unauthorized''
                  \<or> includes_str (error_message e) ''forbidden'' then 403
          else 500)"

section \<open>Rollback manager (services/rollback-manager.ts)\<close>

record rollback_procedure =
  steps :: "string list"
  estimatedDuration :: nat
  requiresConfirmation :: bool

text \<open>
  The table of \<open>getRollbackProcedure\<close> has no entry for \<open>sandbox_disk_full\<close>: the lookup
  gives \<open>undefined\<close> there.
\<close>

fun getRollbackProcedure :: "alert_type \<Rightarrow> rollback_procedure option" where
  "getRollbackProcedure HighMemory =
     Some \<lparr> steps = [''Restore previous memory limits'',
                      ''Restart affected processes with original config'',
                      ''Verify memory usage returned to baseline''],
            estimatedDuration = 30000, requiresConfirmation = False \<rparr>"
| "getRollbackProcedure ContainerDown =
     Some \<lparr> steps = [''Restore container to previous state'',
                      ''Apply original container configuration'',
                      ''Wait for health checks to pass''],
            estimatedDuration = 45000, requiresConfirmation = True \<rparr>"
| "getRollbackProcedure DiskFull =
     Some \<lparr> steps = [''Restore deleted files if backed up'',
                      ''Revert log rotation changes'',
                      ''Verify disk space allocation''],
            estimatedDuration = 60000, requiresConfirmation = False \<rparr>"
| "getRollbackProcedure CpuSpike =
     Some \<lparr> steps = [''Restore CPU throttling settings'',
                      ''Revert process priority changes'',
                      ''Monitor CPU usage stabilization''],
            estimatedDuration = 20000, requiresConfirmation = False \<rparr>"
| "getRollbackProcedure NetworkLatency =
     Some \<lparr> steps = [''Restore network configuration'',
                      ''Revert routing table changes'',
                      ''Verify network latency metrics''],
            estimatedDuration = 40000, requiresConfirmation = True \<rparr>"
| "getRollbackProcedure SandboxDiskFull = None"

text \<open>
  The runtime of one call: \<open>rb_now k\<close> is the \<open>k\<close>-th reading of \<open>Date.now()\<close>,
  \<open>rb_random k\<close> the \<open>k\<close>-th value of \<open>Math.random()\<close>.
\<close>

record rb_env =
  rb_now :: "nat \<Rightarrow> int"
  rb_iso :: "int \<Rightarrow> string"
  rb_random :: "nat \<Rightarrow> real"

definition executeRollbackStep :: "real \<Rightarrow> string \<Rightarrow> js_error + unit" where
  "executeRollbackStep random step =
     (if random < 5 / 100 then Inl (Error (''Failed to execute: '' @ step)) else Inr ())"

definition verifyRollback :: "real \<Rightarrow> bool" where
  "verifyRollback random = (random < 9 / 10)"

fun run_steps :: "(nat \<Rightarrow> real) \<Rightarrow> nat \<Rightarrow> string list \<Rightarrow> string list \<Rightarrow> string list" where
  "run_steps random i [] errors = errors"
| "run_steps random i (step # rest) errors =
     (case executeRollbackStep (random i) step of
        Inl e \<Rightarrow>
          run_steps random (Suc i) rest
            (errors @ [''Step '' @ show_nat (i + 1) @ '' failed: '' @ error_message e])
      | Inr u \<Rightarrow> run_steps random (Suc i) rest errors)"

text \<open>The body of the \<open>try\<close> of \<open>executeRollback\<close>: the state it leaves and what it returns or throws.\<close>

definition executeRollback_try ::
  "rb_env \<Rightarrow> world \<Rightarrow> string \<Rightarrow> string \<Rightarrow> world \<times> (js_error + rollback_result)" where
  "executeRollback_try env w incident why =
     (case rollback_snapshots w incident of
        None \<Rightarrow>
          (w, Inl (new_RollbackError incident ''No rollback snapshot found''
                     (Error ''Snapshot not in state'')))
      | Some snapshot \<Rightarrow>
          (case getRollbackProcedure (sn_alertType snapshot) of
             None \<Rightarrow> (w, Inl (TypeError (''Cannot read properties of undefined (reading ''
                                   @ [CHR 0x27] @ ''steps'' @ [CHR 0x27] @ '')'')))
           | Some procedure \<Rightarrow>
               (let errors = run_steps (rb_random env) 0 (steps procedure) [];
                    verificationPassed = verifyRollback (rb_random env (length (steps procedure)));
                    duration = rb_now env 1 - rb_now env 0;
                    success = (length errors = 0 \<and> verificationPassed);
                    result =
                      \<lparr> rr_success = success,
                        rr_incidentId = incident,
                        rr_rollbackTimestamp = rb_iso env (rb_now env 2),
                        rr_duration = duration,
                        rr_errors = (if length errors > 0 then Some errors else None),
                        rr_verificationPassed = verificationPassed \<rparr>
                in (w\<lparr>rollback_history := (rollback_history w)
                        (incident @ ''-'' @ show_int (rb_now env 3) \<mapsto>
                           \<lparr> re_result = result, re_reason = why, re_snapshot = snapshot \<rparr>)\<rparr>,
                    Inr result))))"

definition executeRollback ::
  "rb_env \<Rightarrow> world \<Rightarrow> string \<Rightarrow> string \<Rightarrow> world \<times> (js_error + rollback_result)" where
  "executeRollback env w incident why =
     (case executeRollback_try env w incident why of
        (w', Inl e) \<Rightarrow> (w', Inl (new_RollbackError incident (error_message e) e))
      | (w', Inr result) \<Rightarrow> (w', Inr result))"

definition empty_world :: world where
  "empty_world =
     \<lparr> policy_rules_group = Map.empty, policy_decisions = Map.empty,
       policy_rejections = Map.empty, approval_pending = Map.empty, rca_results = Map.empty,
       rollback_snapshots = Map.empty, rollback_history = Map.empty, emitted = [],
       action_results_sent = [] \<rparr>"

section \<open>Interactive actions (services/slack-interactive.ts) and GET /manual-approval\<close>

text \<open>
  The services an action calls are given by their results: what \<open>executeCleanup\<close> of the
  sandbox monitor returns now, what \<open>restartContainer\<close> returns for a name, and the names
  of the containers \<open>getContainerStats\<close> reports as high in memory. None of them throws.
  Characters outside ASCII are written as their UTF-8 bytes.
\<close>

record services =
  svc_executeCleanup :: cleanup_result
  svc_restartContainer :: "string \<Rightarrow> exec_result"
  svc_highMemoryContainers :: "string list"

definition cross_mark :: string where
  "cross_mark = [CHR 0xE2, CHR 0x9D, CHR 0x8C]"

text \<open>The body of the \<open>try\<close> of \<open>executeAction\<close>; the left summand is a thrown error with the log so far.\<close>

definition executeAction_try ::
  "services \<Rightarrow> string \<Rightarrow> string option \<Rightarrow> (js_error \<times> string list) + exec_result" where
  "executeAction_try svc actionType containerName =
     (if actionType = ''clear_sandbox'' then
        (let r = svc_executeCleanup svc
         in Inr \<lparr> ex_success = cl_success r, ex_message = cl_message r,
                  ex_logs = [[CHR 0xF0, CHR 0x9F, CHR 0xA7, CHR 0xB9]
                               @ '' Executing sandbox cleanup...''] @ cl_details r \<rparr>)
      else if actionType = ''restart_container'' then
        (case containerName of
           None \<Rightarrow> Inl (Error ''Container name is required for restart action'', [])
         | Some cn \<Rightarrow>
             if cn = [] then Inl (Error ''Container name is required for restart action'', [])
             else
               (let r = svc_restartContainer svc cn
                in Inr \<lparr> ex_success = ex_success r, ex_message = ex_message r,
                         ex_logs = [[CHR 0xF0, CHR 0x9F, CHR 0x94, CHR 0x84]
                                      @ '' Restarting container: '' @ cn] @ ex_logs r \<rparr>))
      else if actionType = ''both'' then
        (let sandboxResult = svc_executeCleanup svc;
             allLogs = [[CHR 0xF0, CHR 0x9F, CHR 0x94, CHR 0xA7] @ '' Executing combined actions...'',
                        [CHR 0x0A] @ ''--- Clearing Sandbox ---''] @ cl_details sandboxResult
         in if \<not> cl_success sandboxResult then
              Inr \<lparr> ex_success = False, ex_message = ''Sandbox cleanup failed'', ex_logs = allLogs \<rparr>
            else
              (case svc_highMemoryContainers svc of
                 targetContainer # others \<Rightarrow>
                   (let restartResult = svc_restartContainer svc targetContainer
                    in Inr \<lparr> ex_success = (cl_success sandboxResult \<and> ex_success restartResult),
                             ex_message = ''Cleared '' @ show_int (cl_freedMB sandboxResult)
                                          @ ''MB from sandbox and restarted '' @ targetContainer,
                             ex_logs = allLogs
                                       @ [[CHR 0x0A] @ ''--- Restarting High Memory Container: ''
                                          @ targetContainer @ '' ---'']
                                       @ ex_logs restartResult \<rparr>)
               | [] \<Rightarrow>
                   Inr \<lparr> ex_success = True,
                          ex_message = ''Cleared '' @ show_int (cl_freedMB sandboxResult)
                                       @ ''MB from sandbox (no containers to restart)'',
                          ex_logs = allLogs \<rparr>))
      else Inl (Error (''Unknown action type: '' @ actionType), []))"

definition executeAction :: "services \<Rightarrow> string \<Rightarrow> string option \<Rightarrow> exec_result" where
  "executeAction svc actionType containerName =
     (case executeAction_try svc actionType containerName of
        Inr r \<Rightarrow> r
      | Inl (e, allLogs) \<Rightarrow>
          \<lparr> ex_success = False,
            ex_message = ''Action failed: '' @ error_message e,
            ex_logs = allLogs @ [cross_mark @ '' Error: '' @ error_message e] \<rparr>)"

datatype user_role = ADMIN | OPERATOR | VIEWER

record user =
  u_role :: user_role
  u_name :: string
  u_apiKey :: string

text \<open>
  The request: the query parameters the handler reads (an absent parameter is \<open>None\<close>) and
  the user the authentication middleware attached.
\<close>

record approval_request =
  q_incident :: string
  q_action :: string
  q_execute :: "string option"
  q_container :: "string option"
  q_approver :: "string option"
  req_user :: "user option"

datatype response_body =
    ErrorBody string
  | ApprovalBody bool string string string
      \<comment> \<open>success, message, incidentId, action\<close>

record http_response =
  status :: nat
  body :: response_body

text \<open>\<open>x || d\<close> on an optional string: the default when \<open>x\<close> is absent or empty.\<close>

definition or_default :: "string option \<Rightarrow> string \<Rightarrow> string" where
  "or_default x d = (case x of None \<Rightarrow> d | Some s \<Rightarrow> if s = [] then d else s)"

fun status_str :: "approval_status \<Rightarrow> string" where
  "status_str Pending = ''pending''"
| "status_str Approved = ''approved''"
| "status_str Rejected = ''rejected''"

text \<open>\<open>sendActionResult\<close>: the notification is recorded; a failed webhook is only logged.\<close>

definition sendActionResult :: "string \<Rightarrow> string \<Rightarrow> exec_result \<Rightarrow> world \<Rightarrow> world" where
  "sendActionResult incident act r w =
     w\<lparr>action_results_sent := action_results_sent w @ [(incident, act, r)]\<rparr>"

text \<open>
  The second half of the handler, from \<open>Update approval state\<close> on. \<open>clock 0\<close> and
  \<open>clock 1\<close> are the two timestamps it takes; when an action was executed, one earlier
  timestamp went into the call of \<open>executeAction\<close>.
\<close>

definition complete_approval ::
  "(nat \<Rightarrow> string) \<Rightarrow> approval_request \<Rightarrow> pending_approval \<Rightarrow> rca_result
     \<Rightarrow> exec_result option \<Rightarrow> world \<Rightarrow> world \<times> http_response" where
  "complete_approval clock req pendingApproval rcaResult executionResult w =
     (let incident = q_incident req;
          approver = or_default (q_approver req) ''slack-interactive'';
          actionType = or_default (q_execute req) ''none'';
          w1 = w\<lparr>approval_pending := (approval_pending w)(incident \<mapsto>
                 pendingApproval
                   \<lparr> pa_status := (if q_action req = ''approve'' then Approved else Rejected),
                     pa_approver := Some approver,
                     pa_approvedAt := Some (clock 0),
                     pa_executionResult := executionResult,
                     pa_actionType := Some actionType \<rparr>)\<rparr>;
          w2 = (if q_action req = ''approve'' then
                  emit \<lparr> topic = ''fix.approved'',
                         data = InteractiveApproval incident approver (clock 1) rcaResult
                                  executionResult actionType \<rparr> w1
                else
                  emit \<lparr> topic = ''fix.rejected'',
                         data = Rejection incident approver (clock 1)
                                  ''Rejected via Slack interactive button'' \<rparr> w1)
      in (w2,
          \<lparr> status = 200,
            body = ApprovalBody True
                     (case executionResult of
                        Some r \<Rightarrow> ex_message r
                      | None \<Rightarrow> ''Incident '' @ q_action req @ ''d successfully'')
                     incident (q_action req) \<rparr>))"

definition ManualApproval_handler ::
  "services \<Rightarrow> (nat \<Rightarrow> string) \<Rightarrow> approval_request \<Rightarrow> world \<Rightarrow> world \<times> http_response" where
  "ManualApproval_handler svc clock req w =
     (case approval_pending w (q_incident req) of
        None \<Rightarrow>
          (w, \<lparr> status = 404,
                body = ErrorBody (''No pending approval found for incident: '' @ q_incident req) \<rparr>)
      | Some pendingApproval \<Rightarrow>
          if pa_status pendingApproval \<noteq> Pending then
            (w, \<lparr> status = 400,
                  body = ErrorBody (''Approval already processed with status: ''
                                    @ status_str (pa_status pendingApproval)) \<rparr>)
          else
            (case rca_results w (q_incident req) of
               None \<Rightarrow>
                 (w, \<lparr> status = 404,
                       body = ErrorBody (''RCA result not found for incident: ''
                                         @ q_incident req) \<rparr>)
             | Some rcaResult \<Rightarrow>
                 (case q_execute req of
                    None \<Rightarrow> complete_approval clock req pendingApproval rcaResult None w
                  | Some execute \<Rightarrow>
                      if q_action req = ''approve'' \<and> execute \<noteq> [] then
                        (if (execute = ''clear_sandbox'' \<or> execute = ''both'')
                            \<and> (case req_user req of
                                   None \<Rightarrow> True
                                 | Some u \<Rightarrow> u_role u \<noteq> ADMIN)
                         then
                           (w, \<lparr> status = 403,
                                 body = ErrorBody
                                   ''Unauthorized: clear_sandbox action requires admin role'' \<rparr>)
                         else
                           (let executionResult = executeAction svc execute (q_container req);
                                w1 = sendActionResult (q_incident req) execute executionResult w
                            in complete_approval (\<lambda>n. clock (Suc n)) req pendingApproval
                                 rcaResult (Some executionResult) w1))
                      else complete_approval clock req pendingApproval rcaResult None w)))"

section \<open>Example states\<close>

text \<open>
  A state with one pending approval and its RCA result, a request of an operator who approves
  it and asks for a container restart without naming a container, and services that succeed.
\<close>

definition pending_world :: world where
  "pending_world = empty_world
      \<lparr> approval_pending := [''inc-9'' \<mapsto>
           \<lparr> pa_incidentId = ''inc-9'', pa_status = Pending, pa_requestedAt = ''t0'',
             pa_riskLevel = Medium, pa_rcaSummary = ''s'', pa_proposedFix = ''restart'',
             pa_approver = None, pa_approvedAt = None, pa_executionResult = None,
             pa_actionType = None \<rparr>],
        rca_results := [''inc-9'' \<mapsto>
           \<lparr> incidentId = ''inc-9'', summary = ''s'', rootCause = ''c'',
             proposedFix = ''restart'', riskLevel = Medium, estimatedImpact = ''low'',
             timestamp = ''t0'', metadata = None \<rparr>] \<rparr>"

definition restart_request :: approval_request where
  "restart_request =
     \<lparr> q_incident = ''inc-9'', q_action = ''approve'',
       q_execute = Some ''restart_container'', q_container = None, q_approver = None,
       req_user = Some \<lparr> u_role = OPERATOR, u_name = ''op'', u_apiKey = ''sk-sentina...'' \<rparr> \<rparr>"

definition working_services :: services where
  "working_services =
     \<lparr> svc_executeCleanup =
         \<lparr> cl_success = True, cl_message = ''ok'', cl_freedMB = 0, cl_details = [] \<rparr>,
       svc_restartContainer =
         (\<lambda>n. \<lparr> ex_success = True, ex_message = ''restarted'', ex_logs = [] \<rparr>),
       svc_highMemoryContainers = [] \<rparr>"

definition fixed_runtime :: rb_env where
  "fixed_runtime =
     \<lparr> rb_now = (\<lambda>k. 1700000000000 + int k), rb_iso = (\<lambda>t. ''2023-11-14T22:13:20.000Z''),
       rb_random = (\<lambda>k. 1 / 2) \<rparr>"

section \<open>Verified properties\<close>

subsection \<open>Policy engine\<close>

lemma startsWith_iff: "startsWith s pat \<longleftrightarrow> (\<exists>post. s = pat @ post)"
  by (induction s pat rule: startsWith.induct) auto

lemma includes_iff: "includes_str s pat \<longleftrightarrow> (\<exists>pre post. s = pre @ pat @ post)"
proof (induction s)
  case Nil
  then show ?case by auto
next
  case (Cons c cs)
  show ?case
  proof
    assume "includes_str (c # cs) pat"
    then consider "startsWith (c # cs) pat" | "includes_str cs pat" by auto
    then show "\<exists>pre post. c # cs = pre @ pat @ post"
    proof cases
      case 1
      then obtain post where "c # cs = pat @ post" unfolding startsWith_iff ..
      then have "c # cs = [] @ pat @ post" by simp
      then show ?thesis by blast
    next
      case 2
      then obtain pre post where "cs = pre @ pat @ post" using Cons.IH by blast
      then have "c # cs = (c # pre) @ pat @ post" by simp
      then show ?thesis by blast
    qed
  next
    assume "\<exists>pre post. c # cs = pre @ pat @ post"
    then obtain pre post where eq: "c # cs = pre @ pat @ post" by blast
    show "includes_str (c # cs) pat"
    proof (cases pre)
      case Nil
      with eq have "startsWith (c # cs) pat" unfolding startsWith_iff by auto
      then show ?thesis by simp
    next
      case (Cons p pre')
      with eq have "cs = pre' @ pat @ post" by simp
      then have "includes_str cs pat" using Cons.IH by blast
      then show ?thesis by simp
    qed
  qed
qed

text \<open>
  C1. Whenever \<open>metadata.alertType\<close> is the string \<open>sandbox_disk_full\<close>, \<open>evaluatePolicy\<close>
  decides \<open>require-approval\<close>, whatever the risk level, the proposed fix and the rules.
\<close>

theorem C1_sandbox_requires_approval:
  assumes "metadata rcaResult = Some m" and "m ''alertType'' = Some (JStr ''sandbox_disk_full'')"
  shows "action (evaluatePolicy rcaResult rules) = RequireApproval
       \<and> action (evaluatePolicy rcaResult rules) \<noteq> AutoApprove
       \<and> action (evaluatePolicy rcaResult rules) \<noteq> Reject"
  using assms by (simp add: evaluatePolicy_def metadata_alertType_def)

theorem C1_sandbox_requires_approval_witness:
  "action (evaluatePolicy
      \<lparr> incidentId = ''inc-1'', summary = ''disk'', rootCause = ''logs'',
        proposedFix = ''delete-data in the sandbox'', riskLevel = Low,
        estimatedImpact = ''none'', timestamp = ''t0'',
        metadata = Some [''alertType'' \<mapsto> JStr ''sandbox_disk_full''] \<rparr> defaultRules)
   = RequireApproval"
  using C1_sandbox_requires_approval
    [of "\<lparr> incidentId = ''inc-1'', summary = ''disk'', rootCause = ''logs'',
        proposedFix = ''delete-data in the sandbox'', riskLevel = Low,
        estimatedImpact = ''none'', timestamp = ''t0'',
        metadata = Some [''alertType'' \<mapsto> JStr ''sandbox_disk_full''] \<rparr>"
        "[''alertType'' \<mapsto> JStr ''sandbox_disk_full'']" defaultRules]
  by simp

lemma toLowerCase_append: "toLowerCase (a @ b) = toLowerCase a @ toLowerCase b"
  by (simp add: toLowerCase_def)

lemma lower_delete_data: "toLowerCase ''delete-data'' = ''delete-data''"
  by (simp add: toLowerCase_def toLowerChar_def)

text \<open>
  C3 (as amended). Under the default rules, a proposed fix that contains \<open>delete-data\<close> in
  any mix of upper and lower case is rejected at every risk level, provided
  \<open>metadata.alertType\<close> is not \<open>sandbox_disk_full\<close>: the sandbox rule is checked first.
\<close>

theorem C3_blocked_fix_rejected:
  assumes "proposedFix rcaResult = pre @ mid @ post"
    and "toLowerCase mid = ''delete-data''"
    and "metadata_alertType rcaResult \<noteq> Some (JStr ''sandbox_disk_full'')"
  shows "action (evaluatePolicy rcaResult defaultRules) = Reject"
proof -
  have "toLowerCase (proposedFix rcaResult)
          = toLowerCase pre @ toLowerCase ''delete-data'' @ toLowerCase post"
    using assms(1,2) by (simp add: toLowerCase_append lower_delete_data)
  then have "includes_str (toLowerCase (proposedFix rcaResult)) (toLowerCase ''delete-data'')"
    unfolding includes_iff by blast
  then have "first_blocked (proposedFix rcaResult) (blockedActions defaultRules)
               = Some ''delete-data''"
    by (simp add: defaultRules_def)
  then show ?thesis
    using assms(3) by (simp add: evaluatePolicy_def)
qed

theorem C3_blocked_fix_rejected_witness:
  "action (evaluatePolicy
      \<lparr> incidentId = ''inc-2'', summary = ''s'', rootCause = ''c'',
        proposedFix = ''Please DELETE-Data now'', riskLevel = Low,
        estimatedImpact = ''none'', timestamp = ''t0'', metadata = None \<rparr> defaultRules)
   = Reject"
  using C3_blocked_fix_rejected
    [of "\<lparr> incidentId = ''inc-2'', summary = ''s'', rootCause = ''c'',
        proposedFix = ''Please DELETE-Data now'', riskLevel = Low,
        estimatedImpact = ''none'', timestamp = ''t0'', metadata = None \<rparr>"
        "''Please ''" "''DELETE-Data''" "'' now''"]
  by (simp add: toLowerCase_def toLowerChar_def metadata_alertType_def)

text \<open>
  The claim as first stated fails: the fix of this sandbox incident contains \<open>delete-data\<close>,
  and the decision is not \<open>reject\<close>.
\<close>

theorem C3_sandbox_counterexample:
  "includes_str (toLowerCase ''delete-data'') (toLowerCase ''delete-data'')
   \<and> action (evaluatePolicy
      \<lparr> incidentId = ''inc-3'', summary = ''s'', rootCause = ''c'',
        proposedFix = ''delete-data'', riskLevel = High,
        estimatedImpact = ''none'', timestamp = ''t0'',
        metadata = Some [''alertType'' \<mapsto> JStr ''sandbox_disk_full''] \<rparr> defaultRules)
   \<noteq> Reject"
  by (simp add: evaluatePolicy_def metadata_alertType_def toLowerCase_def toLowerChar_def)

text \<open>
  C5. When the decision is \<open>reject\<close>, the handler leaves the state it found except for two
  writes, the policy decision and the rejection record of the incident: it emits no event and
  the group \<open>approval-pending\<close> is untouched.
\<close>

theorem C5_reject_persists_only:
  assumes "action (evaluatePolicy rcaResult (snd (loadPolicyRules w))) = Reject"
  shows "PolicyEngineSafetyCheck_handler clock rcaResult w =
           w\<lparr>policy_decisions := (policy_decisions w)(incidentId rcaResult \<mapsto>
                 \<lparr> pd_incidentId = incidentId rcaResult,
                   pd_decision = Reject,
                   pd_reason = reason (evaluatePolicy rcaResult (snd (loadPolicyRules w))),
                   pd_riskLevel = riskLevel rcaResult,
                   pd_evaluatedAt = clock 0,
                   pd_rcaSummary = summary rcaResult,
                   pd_proposedFix = proposedFix rcaResult \<rparr>),
              policy_rejections := (policy_rejections w)(incidentId rcaResult \<mapsto>
                 \<lparr> rj_incidentId = incidentId rcaResult,
                   rj_reason = reason (evaluatePolicy rcaResult (snd (loadPolicyRules w))),
                   rj_rejectedAt = clock 1 \<rparr>)\<rparr>
       \<and> emitted (PolicyEngineSafetyCheck_handler clock rcaResult w) = emitted w
       \<and> approval_pending (PolicyEngineSafetyCheck_handler clock rcaResult w) = approval_pending w"
proof -
  have fst_load: "fst (loadPolicyRules w) = w"
    by (simp add: loadPolicyRules_def state_get_def split: option.splits)
  obtain rules where load: "loadPolicyRules w = (w, rules)"
    using fst_load by (cases "loadPolicyRules w") simp
  from assms load have rej: "action (evaluatePolicy rcaResult rules) = Reject" by simp
  show ?thesis
    by (simp add: PolicyEngineSafetyCheck_handler_def load rej Let_def)
qed

theorem C5_reject_persists_only_witness:
  "action (evaluatePolicy
      \<lparr> incidentId = ''inc-7'', summary = ''db slow'', rootCause = ''bloat'',
        proposedFix = ''Drop-Database and restore'', riskLevel = Low,
        estimatedImpact = ''high'', timestamp = ''t0'', metadata = None \<rparr>
      (snd (loadPolicyRules empty_world))) = Reject
   \<and> emitted (PolicyEngineSafetyCheck_handler (\<lambda>n. ''2026-01-01T00:00:00.000Z'')
      \<lparr> incidentId = ''inc-7'', summary = ''db slow'', rootCause = ''bloat'',
        proposedFix = ''Drop-Database and restore'', riskLevel = Low,
        estimatedImpact = ''high'', timestamp = ''t0'', metadata = None \<rparr> empty_world) = []
   \<and> approval_pending (PolicyEngineSafetyCheck_handler (\<lambda>n. ''2026-01-01T00:00:00.000Z'')
      \<lparr> incidentId = ''inc-7'', summary = ''db slow'', rootCause = ''bloat'',
        proposedFix = ''Drop-Database and restore'', riskLevel = Low,
        estimatedImpact = ''high'', timestamp = ''t0'', metadata = None \<rparr> empty_world) ''inc-7''
       = None"
proof -
  have rej: "action (evaluatePolicy
      \<lparr> incidentId = ''inc-7'', summary = ''db slow'', rootCause = ''bloat'',
        proposedFix = ''Drop-Database and restore'', riskLevel = Low,
        estimatedImpact = ''high'', timestamp = ''t0'', metadata = None \<rparr>
      (snd (loadPolicyRules empty_world))) = Reject"
    by (simp add: loadPolicyRules_def state_get_def empty_world_def evaluatePolicy_def
        metadata_alertType_def defaultRules_def toLowerCase_def toLowerChar_def)
  show ?thesis
    using rej C5_reject_persists_only [OF rej, of "\<lambda>n. ''2026-01-01T00:00:00.000Z''"]
    by (simp add: empty_world_def)
qed

subsection \<open>Metrics sources\<close>

lemma container_resource_not_memory:
  "hc_resource (containerCheck stamp c) \<noteq> ''system-memory''"
  by (simp add: containerCheck_def)

lemma filter_container_checks_memory:
  "filter (\<lambda>c. hc_resource c = ''system-memory'') (map (containerCheck stamp) cs) = []"
  by (induction cs) (simp_all add: containerCheck_def)

text \<open>
  C6. In the health checks of the simulator and of the Prometheus client alike there is exactly
  one check of the resource \<open>system-memory\<close>; it is unhealthy exactly when
  \<open>memory.percentage\<close> is at least 60, and the threshold it records is 80.
\<close>

theorem C6_memory_check_threshold:
  "map (\<lambda>c. (hc_status c = Unhealthy, hc_threshold c))
       (filter (\<lambda>c. hc_resource c = ''system-memory'') (performHealthChecks stamp metrics))
     = [(percentage (memory metrics) \<ge> 60, 80)]
   \<and> map (\<lambda>c. (hc_status c = Unhealthy, hc_threshold c))
       (filter (\<lambda>c. hc_resource c = ''system-memory'') (prom_performHealthChecks stamp metrics))
     = [(percentage (memory metrics) \<ge> 60, 80)]"
  by (simp add: performHealthChecks_def prom_performHealthChecks_def
      filter_container_checks_memory)

theorem C6_memory_check_threshold_witness:
  "map (\<lambda>c. (hc_status c = Unhealthy, hc_threshold c))
       (filter (\<lambda>c. hc_resource c = ''system-memory'')
          (performHealthChecks ''t'' (applyScenario baseMetrics HighMemory)))
     = [(True, 80)]
   \<and> map (\<lambda>c. (hc_status c = Unhealthy, hc_threshold c))
       (filter (\<lambda>c. hc_resource c = ''system-memory'')
          (prom_performHealthChecks ''t''
             (baseMetrics\<lparr>memory := \<lparr> used = 9830, total = 16384, percentage = 60 \<rparr>\<rparr>)))
     = [(True, 80)]
   \<and> map (\<lambda>c. (hc_status c = Unhealthy, hc_threshold c))
       (filter (\<lambda>c. hc_resource c = ''system-memory'')
          (performHealthChecks ''t''
             (baseMetrics\<lparr>memory := \<lparr> used = 9829, total = 16384, percentage = 599 / 10 \<rparr>\<rparr>)))
     = [(False, 80)]"
  using C6_memory_check_threshold [of "''t''" "applyScenario baseMetrics HighMemory"]
    C6_memory_check_threshold
      [of "''t''" "baseMetrics\<lparr>memory := \<lparr> used = 9830, total = 16384, percentage = 60 \<rparr>\<rparr>"]
    C6_memory_check_threshold
      [of "''t''" "baseMetrics\<lparr>memory := \<lparr> used = 9829, total = 16384, percentage = 599 / 10 \<rparr>\<rparr>"]
  by simp

lemma detectAlerts_from_healthy:
  "\<forall>c \<in> set cs. hc_status c = Healthy \<Longrightarrow> detectAlerts_from env stamp i cs = []"
  by (induction cs arbitrary: i) simp_all

lemma baseline_healthy:
  "\<forall>c \<in> set (performHealthChecks stamp baseMetrics). hc_status c = Healthy"
  by (simp add: performHealthChecks_def baseMetrics_def containerCheck_def)

text \<open>
  C8. After \<open>triggerScenario('high_memory')\<close> the collected memory percentage is 80; after
  \<open>clearScenario\<close> it is 25 again; and with no active scenario every health check is healthy
  and \<open>detectAlerts\<close> returns the empty list.
\<close>

theorem C8_scenario_round_trip:
  "percentage (memory (collectMetrics (triggerScenario HighMemory now sim))) = 80
   \<and> percentage (memory (collectMetrics (clearScenario (triggerScenario HighMemory now sim)))) = 25
   \<and> (scenarioActive sim = None \<longrightarrow>
        (\<forall>c \<in> set (performHealthChecks stamp (collectMetrics sim)). hc_status c = Healthy)
        \<and> detectAlerts env stamp (performHealthChecks stamp (collectMetrics sim)) = [])"
proof (intro conjI impI)
  show "percentage (memory (collectMetrics (triggerScenario HighMemory now sim))) = 80"
    by (simp add: collectMetrics_def triggerScenario_def)
  show "percentage (memory (collectMetrics (clearScenario (triggerScenario HighMemory now sim)))) = 25"
    by (simp add: collectMetrics_def triggerScenario_def clearScenario_def baseMetrics_def)
next
  assume "scenarioActive sim = None"
  then have base: "collectMetrics sim = baseMetrics" by (simp add: collectMetrics_def)
  show "\<forall>c \<in> set (performHealthChecks stamp (collectMetrics sim)). hc_status c = Healthy"
    unfolding base by (rule baseline_healthy)
  then show "detectAlerts env stamp (performHealthChecks stamp (collectMetrics sim)) = []"
    unfolding detectAlerts_def by (rule detectAlerts_from_healthy)
qed

theorem C8_scenario_round_trip_witness:
  "percentage (memory (collectMetrics (triggerScenario HighMemory 1000
       \<lparr> scenarioActive = None, scenarioStartTime = 0 \<rparr>))) = 80
   \<and> percentage (memory (collectMetrics (clearScenario (triggerScenario HighMemory 1000
       \<lparr> scenarioActive = None, scenarioStartTime = 0 \<rparr>)))) = 25
   \<and> detectAlerts
        (\<lambda>i. \<lparr> toFixed = (\<lambda>x d. ''0''), toISOString = (\<lambda>t. ''t''), date_now = 0,
                random_id = ''abc'' \<rparr>)
        ''t'' (performHealthChecks ''t''
                (collectMetrics \<lparr> scenarioActive = None, scenarioStartTime = 0 \<rparr>)) = []"
  using C8_scenario_round_trip
    [of 1000 "\<lparr> scenarioActive = None, scenarioStartTime = 0 \<rparr>" "''t''"
        "\<lambda>i. \<lparr> toFixed = (\<lambda>x d. ''0''), toISOString = (\<lambda>t. ''t''), date_now = 0,
                random_id = ''abc'' \<rparr>"]
  by simp

lemma detectAlerts_from_origin:
  "a \<in> set (detectAlerts_from env stamp i cs)
     \<Longrightarrow> \<exists>c \<in> set cs. \<exists>j. createAlert (env j) c stamp = Some a"
proof (induction cs arbitrary: i)
  case Nil
  then show ?case by simp
next
  case (Cons c cs)
  then show ?case
    by (fastforce split: if_splits option.splits)
qed

lemma createAlert_sandbox_only:
  assumes "createAlert e c stamp = Some a" and "al_alertType a = SandboxDiskFull"
  shows "hc_metric c = ''disk_usage_percent'' \<and> hc_resource c = ''sandbox-disk''"
  using assms
  by (auto simp: createAlert_def classifyCheck_def split: if_splits option.splits)

lemma disk_check_resource:
  assumes "c \<in> set (performHealthChecks stamp metrics)" and "hc_metric c = ''disk_usage_percent''"
  shows "hc_resource c = ''system-disk''"
  using assms by (auto simp: performHealthChecks_def containerCheck_def)

text \<open>
  C9. With the scenario \<open>sandbox_disk_full\<close> active, the pipeline of the simulator yields one
  alert, of type \<open>disk_full\<close>, severity critical, on \<open>system-disk\<close>. Whatever the metrics,
  no alert of this pipeline has type \<open>sandbox_disk_full\<close>: the only check with the disk metric
  names the resource \<open>system-disk\<close>.
\<close>

theorem C9_sandbox_scenario_raises_disk_full:
  "(scenarioActive sim = Some SandboxDiskFull \<longrightarrow>
      map (\<lambda>a. (al_alertType a, al_severity a, al_affectedResource a))
          (detectAlerts env stamp (performHealthChecks stamp (collectMetrics sim)))
        = [(DiskFull, SevCritical, ''system-disk'')])
   \<and> (\<forall>a \<in> set (detectAlerts env stamp (performHealthChecks stamp metrics)).
         al_alertType a \<noteq> SandboxDiskFull)"
proof (intro conjI impI ballI)
  assume "scenarioActive sim = Some SandboxDiskFull"
  then show "map (\<lambda>a. (al_alertType a, al_severity a, al_affectedResource a))
          (detectAlerts env stamp (performHealthChecks stamp (collectMetrics sim)))
        = [(DiskFull, SevCritical, ''system-disk'')]"
    by (simp add: collectMetrics_def baseMetrics_def performHealthChecks_def containerCheck_def
        detectAlerts_def createAlert_def classifyCheck_def)
next
  fix a
  assume a: "a \<in> set (detectAlerts env stamp (performHealthChecks stamp metrics))"
  show "al_alertType a \<noteq> SandboxDiskFull"
  proof
    assume sb: "al_alertType a = SandboxDiskFull"
    from a obtain c j where c: "c \<in> set (performHealthChecks stamp metrics)"
      and mk: "createAlert (env j) c stamp = Some a"
      unfolding detectAlerts_def using detectAlerts_from_origin by blast
    from createAlert_sandbox_only [OF mk sb] disk_check_resource [OF c]
    show False by simp
  qed
qed

theorem C9_sandbox_scenario_raises_disk_full_witness:
  "map (\<lambda>a. (al_alertType a, al_severity a, al_affectedResource a))
       (detectAlerts
          (\<lambda>i. \<lparr> toFixed = (\<lambda>x d. ''0''), toISOString = (\<lambda>t. ''t''), date_now = 0,
                  random_id = ''abc'' \<rparr>)
          ''t'' (performHealthChecks ''t''
                  (collectMetrics \<lparr> scenarioActive = Some SandboxDiskFull,
                                    scenarioStartTime = 5 \<rparr>)))
     = [(DiskFull, SevCritical, ''system-disk'')]"
  using C9_sandbox_scenario_raises_disk_full
    [of "\<lparr> scenarioActive = Some SandboxDiskFull, scenarioStartTime = 5 \<rparr>"
        "\<lambda>i. \<lparr> toFixed = (\<lambda>x d. ''0''), toISOString = (\<lambda>t. ''t''), date_now = 0,
                random_id = ''abc'' \<rparr>" "''t''"]
  by simp

subsection \<open>Sandbox monitor\<close>

lemma Math_round_ge_iff: "(z \<le> Math_round x) = (of_int z - 1 / 2 \<le> x)"
  unfolding Math_round_def by (simp add: le_floor_iff algebra_simps)

lemma totalSizeMB_eq:
  "totalSizeMB (sandbox_collectMetrics fs) = Math_round (real (getDirectorySize fs) / (1024 * 1024))"
  by (simp add: sandbox_collectMetrics_def Let_def)

lemma isOverThreshold_bytes: "isOverThreshold fs = (104333312 \<le> getDirectorySize fs)"
proof -
  have "isOverThreshold fs = (100 - 1 / 2 \<le> real (getDirectorySize fs) / (1024 * 1024))"
    unfolding isOverThreshold_def totalSizeMB_eq THRESHOLD_MB_def Math_round_ge_iff by simp
  also have "\<dots> = (real 104333312 \<le> real (getDirectorySize fs))"
    by (simp add: field_simps)
  also have "\<dots> = (104333312 \<le> getDirectorySize fs)"
    by (simp only: of_nat_le_iff)
  finally show ?thesis .
qed

text \<open>
  C7. \<open>isOverThreshold\<close> is true exactly when the measured \<open>totalSizeMB\<close> is at least 100,
  where \<open>totalSizeMB\<close> is the byte size of the tree (a directory that cannot be listed
  counting 0) divided by 1024 * 1024 and rounded to the nearest integer: a measure of 100 is
  over the threshold, a measure of 99 is not. In bytes, the threshold is 104333312 (99.5 MB).
\<close>

theorem C7_threshold_boundary:
  "isOverThreshold fs = (100 \<le> totalSizeMB (sandbox_collectMetrics fs))
   \<and> totalSizeMB (sandbox_collectMetrics fs)
       = Math_round (real (getDirectorySize fs) / (1024 * 1024))
   \<and> (totalSizeMB (sandbox_collectMetrics fs) = 100 \<longrightarrow> isOverThreshold fs)
   \<and> (totalSizeMB (sandbox_collectMetrics fs) = 99 \<longrightarrow> \<not> isOverThreshold fs)
   \<and> isOverThreshold fs = (104333312 \<le> getDirectorySize fs)
   \<and> getDirectorySize (Dir mt False es) = 0"
proof -
  have over: "isOverThreshold fs = (100 \<le> totalSizeMB (sandbox_collectMetrics fs))"
    by (simp add: isOverThreshold_def THRESHOLD_MB_def)
  have at_100: "totalSizeMB (sandbox_collectMetrics fs) = 100 \<longrightarrow> isOverThreshold fs"
    unfolding over by simp
  have at_99: "totalSizeMB (sandbox_collectMetrics fs) = 99 \<longrightarrow> \<not> isOverThreshold fs"
    unfolding over by simp
  have unreadable: "getDirectorySize (Dir mt False es) = 0"
    by (simp add: getDirectorySize_def)
  show ?thesis
    using over totalSizeMB_eq [of fs] at_100 at_99 isOverThreshold_bytes [of fs] unreadable
    by blast
qed

theorem C7_threshold_boundary_witness:
  "totalSizeMB (sandbox_collectMetrics (Dir 0 True
      [(''data'', Dir 0 False [(''hidden'', File 5000000 0)]),
       (''logs'', Dir 0 True [(''app.log'', File 104857600 0)])])) = 100
   \<and> isOverThreshold (Dir 0 True
      [(''data'', Dir 0 False [(''hidden'', File 5000000 0)]),
       (''logs'', Dir 0 True [(''app.log'', File 104857600 0)])])
   \<and> totalSizeMB (sandbox_collectMetrics (Dir 0 True
      [(''data'', Dir 0 False [(''hidden'', File 5000000 0)]),
       (''logs'', Dir 0 True [(''app.log'', File 103809024 0)])])) = 99
   \<and> \<not> isOverThreshold (Dir 0 True
      [(''data'', Dir 0 False [(''hidden'', File 5000000 0)]),
       (''logs'', Dir 0 True [(''app.log'', File 103809024 0)])])"
proof -
  have m100: "totalSizeMB (sandbox_collectMetrics (Dir 0 True
      [(''data'', Dir 0 False [(''hidden'', File 5000000 0)]),
       (''logs'', Dir 0 True [(''app.log'', File 104857600 0)])])) = 100"
    by (simp add: sandbox_collectMetrics_def Let_def Math_round_def getDirectorySize_def)
  have m99: "totalSizeMB (sandbox_collectMetrics (Dir 0 True
      [(''data'', Dir 0 False [(''hidden'', File 5000000 0)]),
       (''logs'', Dir 0 True [(''app.log'', File 103809024 0)])])) = 99"
    by (simp add: sandbox_collectMetrics_def Let_def Math_round_def getDirectorySize_def)
  show ?thesis
    using m100 m99
      C7_threshold_boundary [of "Dir 0 True
        [(''data'', Dir 0 False [(''hidden'', File 5000000 0)]),
         (''logs'', Dir 0 True [(''app.log'', File 104857600 0)])]"]
      C7_threshold_boundary [of "Dir 0 True
        [(''data'', Dir 0 False [(''hidden'', File 5000000 0)]),
         (''logs'', Dir 0 True [(''app.log'', File 103809024 0)])]"]
    by blast
qed

lemma map_of_filter_other:
  "y \<noteq> x \<Longrightarrow> map_of (filter (\<lambda>e. fst e \<noteq> x) es) y = map_of es y"
  by (induction es) auto

lemma map_of_map_child:
  "map_of (map (\<lambda>e. if fst e = x then (fst e, remove_path (snd e) p) else e) es) y
     = (if y = x then map_option (\<lambda>c. remove_path c p) (map_of es y) else map_of es y)"
  by (induction es) auto

lemma lookup_remove_other:
  "y \<noteq> x \<Longrightarrow> lookup (remove_path fs (x # p)) (y # q) = lookup fs (y # q)"
proof (cases fs)
  case (Dir mt r es)
  assume "y \<noteq> x"
  then show ?thesis using Dir
    by (cases p) (simp_all add: map_of_filter_other map_of_map_child)
qed simp_all

lemma lookup_remove_child:
  "lookup (remove_path fs [x, f]) [x] = map_option (\<lambda>c. remove_path c [f]) (lookup fs [x])"
  by (cases fs) (simp_all add: map_of_map_child split: option.splits)

lemma remove_path_Link: "remove_path c p = Link t \<Longrightarrow> c = Link t"
  by (cases "(c, p)" rule: remove_path.cases) simp_all

text \<open>The name \<open>d\<close> at the top of the sandbox is not a symbolic link.\<close>

lemma resolve_top:
  assumes "\<forall>t. lookup fs [d] \<noteq> Some (Link t)"
  shows "resolve b fs [] [d] = (case lookup fs [d] of None \<Rightarrow> None | Some n \<Rightarrow> Some (b, [d]))"
proof (cases "lookup fs [d]")
  case None
  then show ?thesis by simp
next
  case (Some n)
  then show ?thesis using assms by (cases n) simp_all
qed

lemma unlink_top:
  assumes "\<forall>t. lookup fs [d] \<noteq> Some (Link t)" and "unlink locked fs [d, f] = Inr fs'"
  shows "fs' = remove_path fs [d, f]"
proof -
  note top = resolve_top [OF assms(1), of MAXSYMLINKS]
  show ?thesis
    using assms(2)
    by (auto simp: unlink_def top simp del: resolve.simps
        split: option.splits node.splits if_splits)
qed

lemma unlink_frame:
  assumes "\<forall>t. lookup fs [d] \<noteq> Some (Link t)" and "unlink locked fs [d, f] = Inr fs'"
    and "y \<noteq> d"
  shows "lookup fs' (y # q) = lookup fs (y # q)"
  unfolding unlink_top [OF assms(1,2)] by (rule lookup_remove_other [OF assms(3)])

lemma unlink_keeps_top:
  assumes "\<forall>t. lookup fs [d] \<noteq> Some (Link t)" and "unlink locked fs [d, f] = Inr fs'"
  shows "\<forall>t. lookup fs' [d] \<noteq> Some (Link t)"
proof -
  have "lookup fs' [d] = map_option (\<lambda>c. remove_path c [f]) (lookup fs [d])"
    unfolding unlink_top [OF assms] by (rule lookup_remove_child)
  then show ?thesis using assms(1)
    by (cases "lookup fs [d]") (auto dest: remove_path_Link)
qed

lemma cleanTemp_loop_frame:
  assumes "\<forall>t. lookup fs [''temp''] \<noteq> Some (Link t)" and "y \<noteq> ''temp''"
  shows "lookup (fst (cleanTemp_loop locked clk i fs names n)) (y # q) = lookup fs (y # q)"
  using assms(1)
proof (induction names arbitrary: fs i n)
  case Nil
  then show ?case by simp
next
  case (Cons f names)
  show ?case
  proof (cases "stat fs [''temp'', f]")
    case (Inl e)
    then show ?thesis by simp
  next
    case (Inr st)
    show ?thesis
    proof (cases "unlink locked fs [''temp'', f]")
      case (Inl e)
      then show ?thesis using Inr by (simp add: Cons.IH [OF Cons.prems])
    next
      case unl: (Inr fs')
      have same: "lookup fs' (y # q) = lookup fs (y # q)"
        by (rule unlink_frame [OF Cons.prems unl assms(2)])
      have top: "\<forall>t. lookup fs' [''temp''] \<noteq> Some (Link t)"
        by (rule unlink_keeps_top [OF Cons.prems unl])
      show ?thesis using Inr unl same
        by (simp add: Cons.IH [OF Cons.prems] Cons.IH [OF top])
    qed
  qed
qed

lemma unlink_each_frame:
  assumes "\<forall>t. lookup fs [d] \<noteq> Some (Link t)" and "y \<noteq> d"
  shows "lookup (fst (unlink_each locked fs [d] names)) (y # q) = lookup fs (y # q)"
  using assms(1)
proof (induction names arbitrary: fs)
  case Nil
  then show ?case by simp
next
  case (Cons f names)
  show ?case
  proof (cases "unlink locked fs [d, f]")
    case (Inl e)
    then show ?thesis by simp
  next
    case unl: (Inr fs')
    have same: "lookup fs' (y # q) = lookup fs (y # q)"
      by (rule unlink_frame [OF Cons.prems unl assms(2)])
    have top: "\<forall>t. lookup fs' [d] \<noteq> Some (Link t)"
      by (rule unlink_keeps_top [OF Cons.prems unl])
    show ?thesis using unl same by (simp add: Cons.IH [OF top])
  qed
qed

lemma cleanTemp_frame:
  assumes "\<forall>t. lookup fs [''temp''] \<noteq> Some (Link t)" and "y \<noteq> ''temp''"
  shows "lookup (fst (cleanTemp locked clk fs)) (y # q) = lookup fs (y # q)"
  by (simp add: cleanTemp_def cleanTemp_loop_frame [OF assms] split: sum.splits)

lemma fst_case_prod_sum:
  "fst (case x of (fs', Inl e) \<Rightarrow> (fs', f e) | (fs', Inr u) \<Rightarrow> (fs', g u)) = fst x"
  by (cases x) (simp split: sum.splits)

lemma cleanLogs_frame:
  assumes "\<forall>t. lookup fs [''logs''] \<noteq> Some (Link t)" and "y \<noteq> ''logs''"
  shows "lookup (fst (cleanLogs locked fs)) (y # q) = lookup fs (y # q)"
  by (simp add: cleanLogs_def Let_def fst_case_prod_sum unlink_each_frame [OF assms]
      split: sum.splits)

lemma cleanCache_frame:
  assumes "\<forall>t. lookup fs [''cache''] \<noteq> Some (Link t)" and "y \<noteq> ''cache''"
  shows "lookup (fst (cleanCache locked fs)) (y # q) = lookup fs (y # q)"
  by (simp add: cleanCache_def fst_case_prod_sum unlink_each_frame [OF assms] split: sum.splits)

lemma fst_executeCleanup:
  "fst (executeCleanup locked clk fs)
     = fst (cleanCache locked (fst (cleanLogs locked (fst (cleanTemp locked clk fs)))))"
  by (simp add: executeCleanup_def Let_def split_def)

lemma filter_distinct_head:
  "f \<notin> fst ` set es \<Longrightarrow> filter (\<lambda>e. fst e \<noteq> f) es = es"
  by (induction es) auto

lemma lookup_two:
  "lookup fs [d] = Some (Dir mt r es) \<Longrightarrow> lookup fs [d, f] = map_of es f"
  by (cases fs) (auto split: option.splits)

lemma unlink_each_files:
  assumes "lookup fs [d] = Some (Dir mt r es)"
    and "distinct (map fst es)"
    and "\<forall>e \<in> set es. \<forall>mt' r' es'. snd e \<noteq> Dir mt' r' es'"
    and "\<forall>e \<in> set es. \<not> locked [d, fst e]"
  shows "snd (unlink_each locked fs [d] (map fst es)) = Inr ()
         \<and> lookup (fst (unlink_each locked fs [d] (map fst es))) [d] = Some (Dir mt r [])"
  using assms
proof (induction es arbitrary: fs)
  case Nil
  then show ?case by simp
next
  case (Cons e es)
  obtain f n where e: "e = (f, n)" by (cases e)
  have no_dir: "\<forall>mt' r' es'. n \<noteq> Dir mt' r' es'" using Cons.prems(3) e by simp
  have fresh: "f \<notin> fst ` set es" using Cons.prems(2) e by simp
  have free: "\<not> locked [d, f]" using Cons.prems(4) e by simp
  have top: "resolve MAXSYMLINKS fs [] [d] = Some (MAXSYMLINKS, [d])"
    using Cons.prems(1) by (simp add: resolve_top del: resolve.simps)
  have "lookup fs [d, f] = Some n"
    using lookup_two [OF Cons.prems(1)] e by simp
  then have unl: "unlink locked fs [d, f] = Inr (remove_path fs [d, f])"
    using no_dir free top by (cases n) (auto simp: unlink_def simp del: resolve.simps)
  have "lookup (remove_path fs [d, f]) [d] = Some (Dir mt r es)"
    using Cons.prems(1) e fresh by (simp add: lookup_remove_child filter_distinct_head)
  from Cons.IH [OF this] Cons.prems(2,3,4)
  show ?case using unl e by simp
qed

lemma cleanCache_files:
  assumes "lookup fs [''cache''] = Some (Dir mt True es)"
    and "distinct (map fst es)"
    and "\<forall>e \<in> set es. \<forall>mt' r' es'. snd e \<noteq> Dir mt' r' es'"
    and "\<forall>e \<in> set es. \<not> locked [''cache'', fst e]"
  shows "lookup (fst (cleanCache locked fs)) [''cache''] = Some (Dir mt True [])"
proof -
  have "readdir fs [''cache''] = Inr (map fst es)"
    using assms(1) by (simp add: readdir_def resolve_top del: resolve.simps)
  then show ?thesis
    using unlink_each_files [OF assms]
    by (simp add: cleanCache_def fst_case_prod_sum)
qed

text \<open>
  C2 (as amended). Let none of \<open>temp/\<close>, \<open>logs/\<close> and \<open>cache/\<close> be a symbolic link. Then
  after \<open>executeCleanup\<close> every path into the tree stored under \<open>data/\<close> leads to what it
  led to before; and when \<open>cache/\<close> is a directory that can be listed, holds no
  subdirectory, and the system refuses the removal of none of its entries (the entries of a
  directory have distinct names), \<open>cache/\<close> is empty afterwards.
\<close>

theorem C2_cleanup_keeps_data_clears_flat_cache:
  assumes "\<forall>t. lookup fs [''temp''] \<noteq> Some (Link t)"
    and "\<forall>t. lookup fs [''logs''] \<noteq> Some (Link t)"
    and "\<forall>t. lookup fs [''cache''] \<noteq> Some (Link t)"
  shows "(\<forall>p. lookup (fst (executeCleanup locked clk fs)) (''data'' # p) = lookup fs (''data'' # p))
   \<and> (lookup fs [''cache''] = Some (Dir mt True es) \<and> distinct (map fst es)
        \<and> (\<forall>e \<in> set es. \<forall>mt' r' es'. snd e \<noteq> Dir mt' r' es')
        \<and> (\<forall>e \<in> set es. \<not> locked [''cache'', fst e])
      \<longrightarrow> lookup (fst (executeCleanup locked clk fs)) [''cache''] = Some (Dir mt True []))"
proof -
  let ?fs1 = "fst (cleanTemp locked clk fs)"
  let ?fs2 = "fst (cleanLogs locked ?fs1)"
  have at1: "lookup ?fs1 (y # q) = lookup fs (y # q)" if "y \<noteq> ''temp''" for y q
    by (rule cleanTemp_frame [OF assms(1) that])
  have logs1: "\<forall>t. lookup ?fs1 [''logs''] \<noteq> Some (Link t)"
    using assms(2) by (simp add: at1)
  have at2: "lookup ?fs2 (y # q) = lookup fs (y # q)" if "y \<noteq> ''temp''" "y \<noteq> ''logs''" for y q
    using cleanLogs_frame [OF logs1 that(2)] at1 [OF that(1)] by simp
  have cache2: "\<forall>t. lookup ?fs2 [''cache''] \<noteq> Some (Link t)"
    using assms(3) by (simp add: at2)
  show ?thesis
  proof (intro conjI allI impI)
    fix p
    show "lookup (fst (executeCleanup locked clk fs)) (''data'' # p) = lookup fs (''data'' # p)"
      unfolding fst_executeCleanup
      using cleanCache_frame [OF cache2, of "''data''" locked p] at2 [of "''data''" p]
      by simp
  next
    assume a: "lookup fs [''cache''] = Some (Dir mt True es) \<and> distinct (map fst es)
        \<and> (\<forall>e \<in> set es. \<forall>mt' r' es'. snd e \<noteq> Dir mt' r' es')
        \<and> (\<forall>e \<in> set es. \<not> locked [''cache'', fst e])"
    have "lookup ?fs2 [''cache''] = Some (Dir mt True es)"
      using a by (simp add: at2)
    from cleanCache_files [OF this] a
    show "lookup (fst (executeCleanup locked clk fs)) [''cache''] = Some (Dir mt True [])"
      unfolding fst_executeCleanup by blast
  qed
qed

theorem C2_cleanup_keeps_data_clears_flat_cache_witness:
  "lookup (fst (executeCleanup (\<lambda>p. False) (\<lambda>i. 100000) (Dir 0 True
       [(''cache'', Dir 5 True [(''a.bin'', File 4 0), (''b.bin'', File 10 0)]),
        (''data'', Dir 0 True [(''keep.json'', File 5 0)]),
        (''logs'', Dir 0 True [(''app.log'', File 7 0)]),
        (''temp'', Dir 0 True [(''old.tmp'', File 3 0)])]))) [''data'', ''keep.json'']
     = Some (File 5 0)
  \<and> lookup (fst (executeCleanup (\<lambda>p. False) (\<lambda>i. 100000) (Dir 0 True
       [(''cache'', Dir 5 True [(''a.bin'', File 4 0), (''b.bin'', File 10 0)]),
        (''data'', Dir 0 True [(''keep.json'', File 5 0)]),
        (''logs'', Dir 0 True [(''app.log'', File 7 0)]),
        (''temp'', Dir 0 True [(''old.tmp'', File 3 0)])]))) [''cache'']
     = Some (Dir 5 True [])"
  using C2_cleanup_keeps_data_clears_flat_cache
    [of "Dir 0 True
       [(''cache'', Dir 5 True [(''a.bin'', File 4 0), (''b.bin'', File 10 0)]),
        (''data'', Dir 0 True [(''keep.json'', File 5 0)]),
        (''logs'', Dir 0 True [(''app.log'', File 7 0)]),
        (''temp'', Dir 0 True [(''old.tmp'', File 3 0)])]"
        "\<lambda>p. False" "\<lambda>i. 100000" 5 "[(''a.bin'', File 4 0), (''b.bin'', File 10 0)]"]
  by simp

text \<open>
  The claim as first stated fails when \<open>cache/\<close> holds a subdirectory: \<open>unlink\<close> rejects it,
  the cache phase ends there, and the file listed after it is still in place.
\<close>

theorem C2_cache_subdirectory_counterexample:
  "lookup (Dir 0 True
       [(''cache'', Dir 0 True [(''a_sub'', Dir 0 True []), (''b.bin'', File 10 0)]),
        (''data'', Dir 0 True [(''keep.json'', File 5 0)]),
        (''logs'', Dir 0 True [(''app.log'', File 7 0)]),
        (''temp'', Dir 0 True [(''old.tmp'', File 3 0)])]) [''cache'', ''b.bin'']
     = Some (File 10 0)
  \<and> lookup (fst (executeCleanup (\<lambda>p. False) (\<lambda>i. 100000) (Dir 0 True
       [(''cache'', Dir 0 True [(''a_sub'', Dir 0 True []), (''b.bin'', File 10 0)]),
        (''data'', Dir 0 True [(''keep.json'', File 5 0)]),
        (''logs'', Dir 0 True [(''app.log'', File 7 0)]),
        (''temp'', Dir 0 True [(''old.tmp'', File 3 0)])]))) [''cache'', ''b.bin'']
     = Some (File 10 0)"
  by (simp add: fst_executeCleanup cleanCache_def cleanLogs_def cleanTemp_def
      readdir_def unlink_def stat_def MAXSYMLINKS_def)

text \<open>
  The conditions on links and on removal are needed as well. When \<open>cache/\<close> is a symbolic
  link to \<open>data/\<close>, the cache phase lists and removes the files of \<open>data/\<close>; when the system
  refuses the removal of the first entry of \<open>cache/\<close>, the phase ends and every entry stays.
\<close>

lemma cleanup_through_link:
  "lookup (fst (executeCleanup (\<lambda>p. False) (\<lambda>i. 100000) (Dir 0 True
       [(''cache'', Link [''data'']),
        (''data'', Dir 0 True [(''keep.json'', File 5 0)])]))) [''data'', ''keep.json'']
     = None"
  by (simp add: fst_executeCleanup cleanCache_def cleanLogs_def cleanTemp_def
      readdir_def unlink_def stat_def MAXSYMLINKS_def)

lemma cleanup_locked_cache:
  "lookup (fst (executeCleanup (\<lambda>p. p = [''cache'', ''a.bin'']) (\<lambda>i. 100000) (Dir 0 True
       [(''cache'', Dir 0 True [(''a.bin'', File 4 0), (''b.bin'', File 10 0)]),
        (''data'', Dir 0 True [(''keep.json'', File 5 0)])]))) [''cache'']
     = Some (Dir 0 True [(''a.bin'', File 4 0), (''b.bin'', File 10 0)])"
  by (simp add: fst_executeCleanup cleanCache_def cleanLogs_def cleanTemp_def
      readdir_def unlink_def stat_def MAXSYMLINKS_def)

subsection \<open>Rollback manager\<close>

text \<open>
  C4 (as amended). When no snapshot is stored for the incident, \<open>executeRollback\<close> throws a
  \<open>RollbackError\<close> that wraps the \<open>RollbackError\<close> saying \<open>No rollback snapshot found\<close>, and
  the state, the group \<open>rollback-history\<close> included, is what it was.
\<close>

theorem C4_rollback_without_snapshot:
  assumes "rollback_snapshots w incident = None"
  shows "executeRollback env w incident why =
           (w, Inl (RollbackError incident
                  (''Rollback failed for incident '' @ incident
                   @ '': Rollback failed for incident '' @ incident
                   @ '': No rollback snapshot found'')
                  (RollbackError incident
                     (''Rollback failed for incident '' @ incident
                      @ '': No rollback snapshot found'')
                     (Error ''Snapshot not in state''))))
       \<and> rollback_history (fst (executeRollback env w incident why)) = rollback_history w"
  using assms
  by (simp add: executeRollback_def executeRollback_try_def new_RollbackError_def)

theorem C4_rollback_without_snapshot_witness:
  "executeRollback fixed_runtime empty_world ''inc-1'' ''manual''
   = (empty_world,
      Inl (RollbackError ''inc-1''
        ''Rollback failed for incident inc-1: Rollback failed for incident inc-1: No rollback snapshot found''
        (RollbackError ''inc-1'' ''Rollback failed for incident inc-1: No rollback snapshot found''
           (Error ''Snapshot not in state''))))"
proof -
  have none: "rollback_snapshots empty_world ''inc-1'' = None"
    by (simp add: empty_world_def)
  show ?thesis
    using C4_rollback_without_snapshot [OF none, of fixed_runtime "''manual''"]
    by simp
qed

text \<open>
  The error is not of a not-found class: it is the \<open>RollbackError\<close> every failed rollback
  throws, and both middlewares answer it with status 500, not 404.
\<close>

theorem C4_not_found_counterexample:
  "(case snd (executeRollback fixed_runtime empty_world ''inc-1'' ''manual'') of
      Inl e \<Rightarrow> error_name e = ''RollbackError''
                \<and> coreMiddleware_status e = 500 \<and> errorHandler_status e = 500
    | Inr r \<Rightarrow> False)"
  by (simp add: executeRollback_def executeRollback_try_def new_RollbackError_def empty_world_def
      errorHandler_status_def)

subsection \<open>Manual approval\<close>

text \<open>
  C10. In the GET handler of \<open>/manual-approval\<close>, when a pending approval is approved with an
  action to execute (by an admin if the action clears the sandbox) and the action fails, the
  approval goes through all the same: the record becomes \<open>approved\<close> with the failed
  execution result attached, \<open>fix.approved\<close> is emitted, and the answer is 200.
\<close>

theorem C10_failed_action_still_approves:
  assumes "approval_pending w (q_incident req) = Some pendingApproval"
    and "pa_status pendingApproval = Pending"
    and "rca_results w (q_incident req) = Some rcaResult"
    and "q_action req = ''approve''"
    and "q_execute req = Some execute" and "execute \<noteq> []"
    and "execute = ''clear_sandbox'' \<or> execute = ''both''
           \<longrightarrow> (\<exists>u. req_user req = Some u \<and> u_role u = ADMIN)"
    and "\<not> ex_success (executeAction svc execute (q_container req))"
  shows "approval_pending (fst (ManualApproval_handler svc clock req w)) (q_incident req)
           = Some (pendingApproval
                \<lparr> pa_status := Approved,
                  pa_approver := Some (or_default (q_approver req) ''slack-interactive''),
                  pa_approvedAt := Some (clock 1),
                  pa_executionResult := Some (executeAction svc execute (q_container req)),
                  pa_actionType := Some execute \<rparr>)
       \<and> emitted (fst (ManualApproval_handler svc clock req w))
           = emitted w @
             [\<lparr> topic = ''fix.approved'',
                data = InteractiveApproval (q_incident req)
                         (or_default (q_approver req) ''slack-interactive'') (clock 2) rcaResult
                         (Some (executeAction svc execute (q_container req))) execute \<rparr>]
       \<and> status (snd (ManualApproval_handler svc clock req w)) = 200"
proof -
  have admin: "\<not> ((execute = ''clear_sandbox'' \<or> execute = ''both'')
                 \<and> (case req_user req of None \<Rightarrow> True | Some u \<Rightarrow> u_role u \<noteq> ADMIN))"
    using assms(7) by (auto split: option.splits)
  have handler: "ManualApproval_handler svc clock req w =
      complete_approval (\<lambda>n. clock (Suc n)) req pendingApproval rcaResult
        (Some (executeAction svc execute (q_container req)))
        (sendActionResult (q_incident req) execute
           (executeAction svc execute (q_container req)) w)"
    using assms(1-6) admin
    by (auto simp: ManualApproval_handler_def Let_def)
  show ?thesis
    unfolding handler
    using assms(4-6)
    by (simp add: complete_approval_def Let_def sendActionResult_def emit_def or_default_def
        numeral_2_eq_2)
qed

theorem C10_failed_action_still_approves_witness:
  "\<not> ex_success (executeAction working_services ''restart_container'' None)
   \<and> map_option pa_status
        (approval_pending
           (fst (ManualApproval_handler working_services (\<lambda>n. ''t1'') restart_request
                   pending_world)) ''inc-9'')
       = Some Approved
   \<and> map_option (map_option ex_success \<circ> pa_executionResult)
        (approval_pending
           (fst (ManualApproval_handler working_services (\<lambda>n. ''t1'') restart_request
                   pending_world)) ''inc-9'')
       = Some (Some False)
   \<and> map topic
        (emitted (fst (ManualApproval_handler working_services (\<lambda>n. ''t1'') restart_request
                         pending_world)))
       = [''fix.approved'']"
proof -
  have fails:
    "\<not> ex_success (executeAction working_services ''restart_container''
                      (q_container restart_request))"
    by (simp add: executeAction_def executeAction_try_def restart_request_def)
  have p: "approval_pending pending_world (q_incident restart_request) =
      Some \<lparr> pa_incidentId = ''inc-9'', pa_status = Pending, pa_requestedAt = ''t0'',
             pa_riskLevel = Medium, pa_rcaSummary = ''s'', pa_proposedFix = ''restart'',
             pa_approver = None, pa_approvedAt = None, pa_executionResult = None,
             pa_actionType = None \<rparr>"
    by (simp add: pending_world_def restart_request_def empty_world_def)
  have r: "rca_results pending_world (q_incident restart_request) =
      Some \<lparr> incidentId = ''inc-9'', summary = ''s'', rootCause = ''c'',
             proposedFix = ''restart'', riskLevel = Medium, estimatedImpact = ''low'',
             timestamp = ''t0'', metadata = None \<rparr>"
    by (simp add: pending_world_def restart_request_def empty_world_def)
  show ?thesis
    using fails C10_failed_action_still_approves [OF p _ r _ _ _ _ fails, of "\<lambda>n. ''t1''"]
    by (simp add: restart_request_def pending_world_def empty_world_def)
qed

end
